theory Spec2Isabelle
  imports
    Complex_Main
    "HOL-Library.Sublist"
    "HOL-Library.Char_ord"
    "HOL-Library.List_Lexorder"
    "HOL-Library.Multiset"
begin

text \<open>
  A shallow embedding of the data transformation and presentation pipeline of
  wealthgrabber (\<^verbatim>\<open>models.py\<close>, \<^verbatim>\<open>accounts.py\<close>, \<^verbatim>\<open>activities.py\<close>, \<^verbatim>\<open>assets.py\<close>,
  \<^verbatim>\<open>formatters.py\<close>). Each function keeps the name it has in the source, without the
  leading underscore; a local variable that shares its name with a field of a view model
  carries a prime. What the brokerage client returned is an argument of the function that
  asked for it.
\<close>

section \<open>Numbers\<close>

text \<open>
  The view models of \<^verbatim>\<open>models.py\<close> hold Python floats. Every finite float is a
  rational number, so a float value is a \<^typ>\<open>rat\<close>, and every arithmetic operation of
  the source is the exact operation followed by a rounding function \<open>rnd\<close> that the
  embedding takes as a parameter: \<open>a - b\<close> of the source is \<open>rnd (a - b)\<close>. With
  \<open>rnd = (\<lambda>x. x)\<close> the arithmetic is exact; with \<open>rnd = binary64\<close> (below) it is the
  IEEE-754 double arithmetic of CPython, round to nearest, ties to even. Infinities,
  NaN and the exponent limits are outside the model.
\<close>

type_synonym pyfloat = rat

definition round_half_even :: "rat \<Rightarrow> int" where
  "round_half_even q =
     (let f = \<lfloor>q\<rfloor>; d = q - of_int f
      in if d < 1 / 2 then f
         else if 1 / 2 < d then f + 1
         else if even f then f else f + 1)"

text \<open>\<open>pow2 e\<close> is \<open>2\<^sup>e\<close> for an integer exponent.\<close>

definition pow2 :: "int \<Rightarrow> rat" where
  "pow2 e = (if 0 \<le> e then 2 ^ nat e else 1 / 2 ^ nat (- e))"

text \<open>
  \<open>ilog2 x\<close> is the exponent \<open>e\<close> with \<open>2\<^sup>e \<le> x < 2\<^sup>e\<^sup>+\<^sup>1\<close> for \<open>x > 0\<close>, found from the
  bit lengths of numerator and denominator.
\<close>

function bit_length :: "int \<Rightarrow> int" where
  "bit_length n = (if n \<le> 0 then 0 else 1 + bit_length (n div 2))"
  by pat_completeness auto
termination
  by (relation "measure nat") auto

definition ilog2 :: "rat \<Rightarrow> int" where
  "ilog2 x =
     (let (p, q) = quotient_of x;
          e0 = bit_length p - bit_length q
      in if pow2 e0 \<le> x then e0 else e0 - 1)"

definition binary64 :: "rat \<Rightarrow> pyfloat" where
  "binary64 x =
     (if x = 0 then 0
      else let u = pow2 (ilog2 \<bar>x\<bar> - 52)
           in of_int (round_half_even (x / u)) * u)"

text \<open>
  The loop \<^verbatim>\<open>total += x\<close>, starting at \<open>0\<close>: one rounded addition per item, from the
  left.
\<close>

definition plain_sum :: "(rat \<Rightarrow> pyfloat) \<Rightarrow> pyfloat list \<Rightarrow> pyfloat" where
  "plain_sum rnd xs = foldl (\<lambda>acc x. rnd (acc + x)) 0 xs"

text \<open>
  Python's builtin \<^verbatim>\<open>sum(...)\<close> over floats depends on the interpreter. Up to CPython 3.11
  it is the plain loop above. From CPython 3.12 on it is Neumaier's compensated
  summation: the first item is added to the start value \<open>0\<close>; for each further item \<open>x\<close>
  the running sum \<open>f\<close> becomes \<open>t = f + x\<close>, and the compensation \<open>c\<close> gains
  \<open>(f - t) + x\<close> when \<open>\<bar>f\<bar> \<ge> \<bar>x\<bar>\<close> and \<open>(x - t) + f\<close> otherwise; at the end a non-zero \<open>c\<close> is
  added to \<open>f\<close>. Every operation is a rounded float operation. The repository does not
  fix the interpreter, so the variant is a parameter of everything that calls \<^verbatim>\<open>sum\<close>.
\<close>

datatype cpython_sum = Plain_sum | Compensated_sum

definition neumaier_update ::
  "(rat \<Rightarrow> pyfloat) \<Rightarrow> pyfloat \<Rightarrow> pyfloat \<Rightarrow> pyfloat \<Rightarrow> pyfloat \<Rightarrow> pyfloat \<times> pyfloat" where
  "neumaier_update rnd f c x t =
     (t, if \<bar>x\<bar> \<le> \<bar>f\<bar>
         then rnd (c + rnd (rnd (f - t) + x))
         else rnd (c + rnd (rnd (x - t) + f)))"

definition neumaier_step :: "(rat \<Rightarrow> pyfloat) \<Rightarrow> pyfloat \<times> pyfloat \<Rightarrow> pyfloat \<Rightarrow> pyfloat \<times> pyfloat" where
  "neumaier_step rnd fc x = neumaier_update rnd (fst fc) (snd fc) x (rnd (fst fc + x))"

definition neumaier_finish :: "(rat \<Rightarrow> pyfloat) \<Rightarrow> pyfloat \<times> pyfloat \<Rightarrow> pyfloat" where
  "neumaier_finish rnd fc = (if snd fc \<noteq> 0 then rnd (fst fc + snd fc) else fst fc)"

definition compensated_sum :: "(rat \<Rightarrow> pyfloat) \<Rightarrow> pyfloat list \<Rightarrow> pyfloat" where
  "compensated_sum rnd xs =
     (case xs of
        [] \<Rightarrow> 0
      | x # rest \<Rightarrow> neumaier_finish rnd (foldl (neumaier_step rnd) (rnd (0 + x), 0) rest))"

definition py_sum :: "cpython_sum \<Rightarrow> (rat \<Rightarrow> pyfloat) \<Rightarrow> pyfloat list \<Rightarrow> pyfloat" where
  "py_sum ver rnd xs =
     (case ver of
        Plain_sum \<Rightarrow> plain_sum rnd xs
      | Compensated_sum \<Rightarrow> compensated_sum rnd xs)"

section \<open>View models (\<^verbatim>\<open>models.py\<close>)\<close>

record AccountData =
  description :: string
  number :: string
  "value" :: pyfloat
  currency :: string

record ActivityData =
  date :: string
  activity_type :: string
  description :: string
  amount :: pyfloat
  currency :: string
  sign :: string
  account_label :: "string option"

record PositionData =
  symbol :: string
  name :: string
  quantity :: pyfloat
  market_value :: pyfloat
  book_value :: pyfloat
  currency :: string
  pnl :: pyfloat
  pnl_pct :: pyfloat
  account_label :: "string option"

section \<open>Raw records of the brokerage client\<close>

text \<open>
  The client returns nested dicts. Each key the code reads is a field here, \<open>None\<close>
  when the key is absent (the code reads with \<^verbatim>\<open>.get(key, default)\<close>). Amounts are
  taken after \<^verbatim>\<open>float(...)\<close>, as the number they denote.
\<close>

record raw_money =
  m_amount :: "pyfloat option"
  m_currency :: "string option"

record raw_account_ref =
  r_id :: "string option"

record raw_position =
  p_quantity :: "pyfloat option"
  p_accounts :: "raw_account_ref list"
  p_security_id :: "string option"
  p_totalValue :: "raw_money option"
  p_bookValue :: "raw_money option"

record raw_account =
  a_id :: "string option"
  a_description :: "string option"
  a_number :: "string option"
  a_netLiquidationValue :: "raw_money option"

text \<open>\<^verbatim>\<open>d.get(key, default)\<close> on an optional field.\<close>

definition get_or :: "'a option \<Rightarrow> 'a \<Rightarrow> 'a" where
  "get_or v d = (case v of None \<Rightarrow> d | Some x \<Rightarrow> x)"

text \<open>\<^verbatim>\<open>position.get("totalValue", {})\<close>: an absent value is the empty dict.\<close>

definition empty_money :: raw_money where
  "empty_money = \<lparr>m_amount = None, m_currency = None\<rparr>"


section \<open>The market-data capability\<close>

text \<open>
  \<^verbatim>\<open>ws.get_security_market_data(security_id, use_cache=False)\<close> either raises or
  returns \<^verbatim>\<open>None\<close> or a dict whose \<^verbatim>\<open>"stock"\<close> entry, when present, is a dict of
  strings. The capability is a parameter \<open>ws\<close>; its answer may depend on the calls made
  so far, which are kept in a list \<open>calls\<close> (the identifiers requested, oldest first). That list is
  the only trace of an external call, so "no external call" is "\<open>calls\<close> is unchanged".
\<close>

datatype market_data = MarketData (md_stock: "(string \<times> string) list option")

datatype fetch_result = Raised | Returned "market_data option"

type_synonym market_api = "string list \<Rightarrow> string \<Rightarrow> fetch_result"

text \<open>\<^verbatim>\<open>stock.get(key, default)\<close> on a dict of strings.\<close>

definition dict_get :: "(string \<times> string) list \<Rightarrow> string \<Rightarrow> string \<Rightarrow> string" where
  "dict_get d k dflt = (case map_of d k of None \<Rightarrow> dflt | Some v \<Rightarrow> v)"

text \<open>
  \<^verbatim>\<open>market_data and market_data.get("stock")\<close>: the stock dict when both are truthy
  (\<^verbatim>\<open>None\<close> and the empty dict are falsy).
\<close>

definition truthy_stock :: "market_data option \<Rightarrow> (string \<times> string) list option" where
  "truthy_stock market_data =
     (case market_data of
        None \<Rightarrow> None
      | Some m \<Rightarrow> (case md_stock m of None \<Rightarrow> None | Some s \<Rightarrow> if s = [] then None else Some s))"

section \<open>Security resolution (\<^verbatim>\<open>assets.py\<close>, \<^verbatim>\<open>activities.py\<close>)\<close>

text \<open>
  \<^verbatim>\<open>_get_security_info(ws, security_id, cache)\<close> of \<^verbatim>\<open>assets.py\<close>. The result is the
  returned pair, the cache after the call and the calls after the call.
\<close>

definition get_security_info ::
  "market_api \<Rightarrow> string \<Rightarrow> (string \<rightharpoonup> string \<times> string) \<Rightarrow> string list
     \<Rightarrow> (string \<times> string) \<times> (string \<rightharpoonup> string \<times> string) \<times> string list" where
  "get_security_info ws security_id cache calls =
     (case cache security_id of
        Some v \<Rightarrow> (v, cache, calls)
      | None \<Rightarrow>
          let (symbol', name', calls') =
                (if security_id \<noteq> [] then
                   (case ws calls security_id of
                      Raised \<Rightarrow> (security_id, security_id, calls @ [security_id])
                    | Returned market_data \<Rightarrow>
                        (case truthy_stock market_data of
                           Some stock \<Rightarrow>
                             (let symbol' = dict_get stock ''symbol'' ''N/A''
                              in (symbol', dict_get stock ''name'' symbol', calls @ [security_id]))
                         | None \<Rightarrow> (''N/A'', ''Unknown'', calls @ [security_id])))
                 else (''N/A'', ''Unknown'', calls))
          in ((symbol', name'), cache(security_id \<mapsto> (symbol', name')), calls'))"

text \<open>\<^verbatim>\<open>_get_security_name(ws, security_id, cache)\<close> of \<^verbatim>\<open>activities.py\<close>.\<close>

definition get_security_name ::
  "market_api \<Rightarrow> string \<Rightarrow> (string \<rightharpoonup> string) \<Rightarrow> string list
     \<Rightarrow> string \<times> (string \<rightharpoonup> string) \<times> string list" where
  "get_security_name ws security_id cache calls =
     (case cache security_id of
        Some v \<Rightarrow> (v, cache, calls)
      | None \<Rightarrow>
          let (name', calls') =
                (if security_id \<noteq> [] then
                   (case ws calls security_id of
                      Raised \<Rightarrow> (security_id, calls @ [security_id])
                    | Returned market_data \<Rightarrow>
                        (case truthy_stock market_data of
                           Some stock \<Rightarrow>
                             (let symbol' = dict_get stock ''symbol'' [];
                                  stock_name = dict_get stock ''name'' []
                              in (if symbol' \<noteq> [] then symbol'
                                  else if stock_name \<noteq> [] then stock_name else security_id,
                                  calls @ [security_id]))
                         | None \<Rightarrow> (security_id, calls @ [security_id])))
                 else (security_id, calls))
          in (name', cache(security_id \<mapsto> name'), calls'))"

section \<open>Positions (\<^verbatim>\<open>assets.py\<close>)\<close>

text \<open>\<^verbatim>\<open>_position_has_account\<close> and \<^verbatim>\<open>_get_position_account_ids\<close>.\<close>

definition position_has_account :: "raw_position \<Rightarrow> string \<Rightarrow> bool" where
  "position_has_account position account_id =
     list_ex (\<lambda>acc. r_id acc = Some account_id) (p_accounts position)"

definition get_position_account_ids :: "raw_position \<Rightarrow> string list" where
  "get_position_account_ids position =
     concat (map (\<lambda>acc. case r_id acc of
                          None \<Rightarrow> []
                        | Some i \<Rightarrow> if i \<noteq> [] then [i] else [])
                 (p_accounts position))"

text \<open>
  \<^verbatim>\<open>_get_position_data(ws, position, security_cache, currency)\<close>; the security cache
  and the call calls are passed through.
\<close>

definition get_position_data ::
  "(rat \<Rightarrow> pyfloat) \<Rightarrow> market_api \<Rightarrow> raw_position \<Rightarrow> (string \<rightharpoonup> string \<times> string)
     \<Rightarrow> string list \<Rightarrow> string
     \<Rightarrow> PositionData \<times> (string \<rightharpoonup> string \<times> string) \<times> string list" where
  "get_position_data rnd ws position security_cache calls currency' =
     (let security_id = get_or (p_security_id position) [];
          ((symbol', name'), cache', calls') =
             get_security_info ws security_id security_cache calls;
          name' = take 30 name';
          quantity' = get_or (p_quantity position) 0;
          total_val = get_or (p_totalValue position) empty_money;
          market_value' = get_or (m_amount total_val) 0;
          val_currency = get_or (m_currency total_val) currency';
          book_val = get_or (p_bookValue position) empty_money;
          book_value' = get_or (m_amount book_val) 0;
          pnl' = rnd (market_value' - book_value');
          pnl_pct' = (if book_value' \<noteq> 0 then rnd (rnd (pnl' / book_value') * 100) else 0)
      in (\<lparr>symbol = symbol', name = name', quantity = quantity',
           market_value = market_value', book_value = book_value',
           currency = val_currency, pnl = pnl', pnl_pct = pnl_pct',
           account_label = None\<rparr>, cache', calls'))"

text \<open>\<^verbatim>\<open>_build_account_label\<close>: \<^verbatim>\<open>f"{description} ({number})"\<close>.\<close>

definition build_account_label :: "raw_account \<Rightarrow> string" where
  "build_account_label account =
     get_or (a_description account) ''Unknown'' @ '' ('' @ get_or (a_number account) ''N/A'' @ '')''"

text \<open>
  \<^verbatim>\<open>_get_positions_by_account_grouped\<close>. First the dict from account id to the
  positions of that account, filled by \<^verbatim>\<open>setdefault(acc_id, []).append(pos)\<close>.
\<close>

definition setdefault_append ::
  "(string \<rightharpoonup> raw_position list) \<Rightarrow> string \<Rightarrow> raw_position \<Rightarrow> (string \<rightharpoonup> raw_position list)" where
  "setdefault_append d acc_id pos = d(acc_id \<mapsto> get_or (d acc_id) [] @ [pos])"

definition build_positions_by_account :: "raw_position list \<Rightarrow> (string \<rightharpoonup> raw_position list)" where
  "build_positions_by_account positions =
     foldl (\<lambda>d pos. foldl (\<lambda>d acc_id. setdefault_append d acc_id pos) d
                         (get_position_account_ids pos))
           Map.empty positions"

text \<open>The inner loop \<^verbatim>\<open>for pos in acc_positions\<close>.\<close>

fun label_positions ::
  "(rat \<Rightarrow> pyfloat) \<Rightarrow> market_api \<Rightarrow> raw_position list \<Rightarrow> string
     \<Rightarrow> (string \<rightharpoonup> string \<times> string) \<Rightarrow> string list \<Rightarrow> string
     \<Rightarrow> PositionData list \<times> (string \<rightharpoonup> string \<times> string) \<times> string list" where
  "label_positions rnd ws [] acc_label cache calls currency' = ([], cache, calls)"
| "label_positions rnd ws (pos # rest) acc_label cache calls currency' =
     (let (pos_data, cache1, calls1) = get_position_data rnd ws pos cache calls currency';
          (more, cache2, calls2) = label_positions rnd ws rest acc_label cache1 calls1 currency'
      in (pos_data\<lparr>account_label := Some acc_label\<rparr> # more, cache2, calls2))"

text \<open>The outer loop \<^verbatim>\<open>for account in accounts\<close>.\<close>

fun grouped_loop ::
  "(rat \<Rightarrow> pyfloat) \<Rightarrow> market_api \<Rightarrow> (string \<rightharpoonup> raw_position list) \<Rightarrow> raw_account list
     \<Rightarrow> (string \<rightharpoonup> string \<times> string) \<Rightarrow> string list \<Rightarrow> string
     \<Rightarrow> PositionData list \<times> (string \<rightharpoonup> string \<times> string) \<times> string list" where
  "grouped_loop rnd ws positions_by_account [] cache calls currency' = ([], cache, calls)"
| "grouped_loop rnd ws positions_by_account (account # rest) cache calls currency' =
     (let acc_positions =
            (case a_id account of
               None \<Rightarrow> []
             | Some acc_id \<Rightarrow> get_or (positions_by_account acc_id) [])
      in if acc_positions = []
         then grouped_loop rnd ws positions_by_account rest cache calls currency'
         else
           (let (labelled, cache1, calls1) =
                  label_positions rnd ws acc_positions (build_account_label account)
                    cache calls currency';
                (more, cache2, calls2) =
                  grouped_loop rnd ws positions_by_account rest cache1 calls1 currency'
            in (labelled @ more, cache2, calls2)))"

definition get_positions_by_account_grouped ::
  "(rat \<Rightarrow> pyfloat) \<Rightarrow> market_api \<Rightarrow> raw_position list \<Rightarrow> raw_account list
     \<Rightarrow> (string \<rightharpoonup> string \<times> string) \<Rightarrow> string list \<Rightarrow> string
     \<Rightarrow> PositionData list \<times> (string \<rightharpoonup> string \<times> string) \<times> string list" where
  "get_positions_by_account_grouped rnd ws positions accounts security_cache calls currency' =
     grouped_loop rnd ws (build_positions_by_account positions) accounts
       security_cache calls currency'"

definition filter_positions_by_account :: "raw_position list \<Rightarrow> string \<Rightarrow> raw_position list" where
  "filter_positions_by_account positions account_id =
     filter (\<lambda>p. position_has_account p account_id) positions"

text \<open>
  \<^verbatim>\<open>_get_accounts_for_assets\<close>; \<open>accounts\<close> is what \<^verbatim>\<open>ws.get_accounts()\<close> returned.
  \<^verbatim>\<open>if account_id:\<close> holds for a non-empty string.
\<close>

definition truthy_str :: "string option \<Rightarrow> bool" where
  "truthy_str s = (case s of None \<Rightarrow> False | Some v \<Rightarrow> v \<noteq> [])"

definition get_accounts_for_assets :: "raw_account list \<Rightarrow> string option \<Rightarrow> raw_account list" where
  "get_accounts_for_assets accounts account_id =
     (if truthy_str account_id then filter (\<lambda>a. a_id a = account_id) accounts else accounts)"

text \<open>The list comprehension of the aggregated view.\<close>

fun position_data_list ::
  "(rat \<Rightarrow> pyfloat) \<Rightarrow> market_api \<Rightarrow> raw_position list
     \<Rightarrow> (string \<rightharpoonup> string \<times> string) \<Rightarrow> string list \<Rightarrow> string
     \<Rightarrow> PositionData list \<times> (string \<rightharpoonup> string \<times> string) \<times> string list" where
  "position_data_list rnd ws [] cache calls currency' = ([], cache, calls)"
| "position_data_list rnd ws (pos # rest) cache calls currency' =
     (let (pos_data, cache1, calls1) = get_position_data rnd ws pos cache calls currency';
          (more, cache2, calls2) = position_data_list rnd ws rest cache1 calls1 currency'
      in (pos_data # more, cache2, calls2))"

text \<open>
  \<^verbatim>\<open>get_assets_data\<close>. \<open>positions\<close> is what \<^verbatim>\<open>ws.get_identity_positions(None, currency)\<close>
  returned and \<open>accounts\<close> what \<^verbatim>\<open>ws.get_accounts()\<close> returned. The result is the list of
  view models and the calls of market-data calls.
\<close>

definition get_assets_data ::
  "(rat \<Rightarrow> pyfloat) \<Rightarrow> market_api \<Rightarrow> raw_position list \<Rightarrow> raw_account list
     \<Rightarrow> string option \<Rightarrow> bool \<Rightarrow> string \<Rightarrow> string option
     \<Rightarrow> PositionData list \<times> string list" where
  "get_assets_data rnd ws positions accounts account_id by_account currency' pnl_filter =
     (if positions = [] then ([], [])
      else
        let positions = (if truthy_str account_id
                         then filter_positions_by_account positions (the account_id)
                         else positions)
        in if positions = [] then ([], [])
           else
             let security_cache = Map.empty;
                 accounts = get_accounts_for_assets accounts account_id
             in if by_account \<and> accounts = [] then ([], [])
                else
                  let (position_data, cache, calls) =
                        (if \<not> by_account
                         then position_data_list rnd ws positions security_cache [] currency'
                         else get_positions_by_account_grouped rnd ws positions accounts
                                security_cache [] currency');
                      position_data =
                        (if pnl_filter = Some ''profit''
                         then filter (\<lambda>pos. 0 < pnl pos) position_data
                         else if pnl_filter = Some ''loss''
                         then filter (\<lambda>pos. pnl pos < 0) position_data
                         else position_data)
                  in (position_data, calls))"

text \<open>\<^verbatim>\<open>_calculate_position_totals\<close> of \<^verbatim>\<open>assets.py\<close>.\<close>

definition assets_calculate_position_totals ::
  "cpython_sum \<Rightarrow> (rat \<Rightarrow> pyfloat) \<Rightarrow> PositionData list \<Rightarrow> pyfloat \<times> pyfloat \<times> pyfloat" where
  "assets_calculate_position_totals ver rnd positions =
     (let total_value = py_sum ver rnd (map market_value positions);
          total_book = py_sum ver rnd (map book_value positions);
          total_pnl = rnd (total_value - total_book);
          total_pnl_pct = (if total_book \<noteq> 0 then rnd (rnd (total_pnl / total_book) * 100) else 0)
      in (total_value, total_pnl, total_pnl_pct))"

text \<open>\<^verbatim>\<open>_calculate_position_totals\<close> of \<^verbatim>\<open>formatters.py\<close>.\<close>

definition calculate_position_totals ::
  "cpython_sum \<Rightarrow> (rat \<Rightarrow> pyfloat) \<Rightarrow> PositionData list \<Rightarrow> pyfloat \<times> pyfloat \<times> pyfloat \<times> pyfloat" where
  "calculate_position_totals ver rnd positions =
     (let total_value = py_sum ver rnd (map market_value positions);
          total_book = py_sum ver rnd (map book_value positions);
          total_pnl = rnd (total_value - total_book);
          total_pnl_pct = (if total_book \<noteq> 0 then rnd (rnd (total_pnl / total_book) * 100) else 0)
      in (total_value, total_book, total_pnl, total_pnl_pct))"

text \<open>
  The zero-guarded percentage of the position invariant, written once in the words of
  the specification: \<open>p / b * 100\<close> when \<open>b \<noteq> 0\<close>, else \<open>0\<close>.
\<close>

definition zero_guarded_pct :: "(rat \<Rightarrow> pyfloat) \<Rightarrow> pyfloat \<Rightarrow> pyfloat \<Rightarrow> pyfloat" where
  "zero_guarded_pct rnd p b = (if b \<noteq> 0 then rnd (rnd (p / b) * 100) else 0)"

section \<open>Accounts (\<^verbatim>\<open>accounts.py\<close>)\<close>

definition extract_account_value :: "raw_account \<Rightarrow> pyfloat \<times> string" where
  "extract_account_value account =
     (let net_liq = get_or (a_netLiquidationValue account) empty_money
      in (get_or (m_amount net_liq) 0, get_or (m_currency net_liq) ''CAD''))"

text \<open>
  \<^verbatim>\<open>str.lower()\<close> on ASCII letters; other bytes are kept. (No character outside ASCII
  lower-cases to a run of ASCII letters that completes one of the keywords below.)
\<close>

definition lower_char :: "char \<Rightarrow> char" where
  "lower_char c =
     (case map_of (zip ''ABCDEFGHIJKLMNOPQRSTUVWXYZ'' ''abcdefghijklmnopqrstuvwxyz'') c of
        None \<Rightarrow> c
      | Some l \<Rightarrow> l)"

definition str_lower :: "string \<Rightarrow> string" where
  "str_lower s = map lower_char s"

definition non_liquid_keywords :: "string list" where
  "non_liquid_keywords = [''rrsp'', ''lira'', ''private equity'', ''private credit'']"

text \<open>\<^verbatim>\<open>keyword in description.lower()\<close> is the contiguous-sublist test.\<close>

definition is_non_liquid_account :: "string \<Rightarrow> bool" where
  "is_non_liquid_account descr =
     list_ex (\<lambda>keyword. sublist keyword (str_lower descr)) non_liquid_keywords"

definition should_include_account :: "bool \<Rightarrow> bool \<Rightarrow> bool \<Rightarrow> bool" where
  "should_include_account is_non_liquid liquid_only not_liquid =
     (if liquid_only \<and> is_non_liquid then False
      else if not_liquid \<and> \<not> is_non_liquid then False
      else True)"

text \<open>The loop of \<^verbatim>\<open>get_accounts_data\<close>; each \<^verbatim>\<open>continue\<close> skips the account.\<close>

fun accounts_loop :: "raw_account list \<Rightarrow> bool \<Rightarrow> bool \<Rightarrow> bool \<Rightarrow> AccountData list" where
  "accounts_loop [] show_zero_balances liquid_only not_liquid = []"
| "accounts_loop (account # rest) show_zero_balances liquid_only not_liquid =
     (let descr = get_or (a_description account) ''Unknown Account'';
          num = get_or (a_number account) ''N/A'';
          is_non_liquid = is_non_liquid_account descr
      in if \<not> should_include_account is_non_liquid liquid_only not_liquid
         then accounts_loop rest show_zero_balances liquid_only not_liquid
         else
           (let (val, cur) = extract_account_value account
            in if val = 0 \<and> \<not> show_zero_balances
               then accounts_loop rest show_zero_balances liquid_only not_liquid
               else \<lparr>AccountData.description = descr, AccountData.number = num,
                     AccountData.value = val, AccountData.currency = cur\<rparr>
                    # accounts_loop rest show_zero_balances liquid_only not_liquid))"

text \<open>\<open>accounts\<close> is what \<^verbatim>\<open>ws.get_accounts()\<close> returned.\<close>

definition get_accounts_data :: "raw_account list \<Rightarrow> bool \<Rightarrow> bool \<Rightarrow> bool \<Rightarrow> AccountData list" where
  "get_accounts_data accounts show_zero_balances liquid_only not_liquid =
     (if accounts = [] then []
      else accounts_loop accounts show_zero_balances liquid_only not_liquid)"

section \<open>Activities (\<^verbatim>\<open>activities.py\<close>)\<close>

record raw_activity =
  act_type :: "string option"
  act_description :: "string option"
  act_occurredAt :: "string option"
  act_amount :: "pyfloat option"
  act_amountSign :: "string option"
  act_currency :: "string option"

text \<open>\<^verbatim>\<open>activity.get("amount") or 0\<close>: a missing, null or zero amount gives \<open>0\<close>.\<close>

definition amount_or_zero :: "pyfloat option \<Rightarrow> pyfloat" where
  "amount_or_zero a = (case a of None \<Rightarrow> 0 | Some v \<Rightarrow> if v = 0 then 0 else v)"

text \<open>
  \<^verbatim>\<open>_transform_activity\<close>. The date comes from \<^verbatim>\<open>_format_date\<close> (Python's
  \<^verbatim>\<open>datetime\<close>) and the description from \<^verbatim>\<open>_enhance_description\<close> (Python's \<^verbatim>\<open>re\<close> and
  the resolver above); both are parameters here, and neither touches amount or sign.
\<close>

definition transform_activity ::
  "(string \<Rightarrow> string) \<Rightarrow> (raw_activity \<Rightarrow> string) \<Rightarrow> raw_activity \<Rightarrow> string option
     \<Rightarrow> ActivityData" where
  "transform_activity format_date enhance_description activity label =
     \<lparr>ActivityData.date = format_date (get_or (act_occurredAt activity) []),
      ActivityData.activity_type = take 14 (get_or (act_type activity) ''N/A''),
      ActivityData.description = take 34 (enhance_description activity),
      ActivityData.amount = amount_or_zero (act_amount activity),
      ActivityData.currency = get_or (act_currency activity) ''CAD'',
      ActivityData.sign = (if act_amountSign activity = Some ''positive'' then ''+'' else ''-''),
      ActivityData.account_label = label\<rparr>"

section \<open>Grouping by account label\<close>

text \<open>\<^verbatim>\<open>itertools.groupby(xs, key)\<close>: the maximal runs of consecutive items with equal key.\<close>

function groupby :: "('a \<Rightarrow> 'k) \<Rightarrow> 'a list \<Rightarrow> ('k \<times> 'a list) list" where
  "groupby key [] = []"
| "groupby key (x # xs) =
     (key x, x # takeWhile (\<lambda>y. key y = key x) xs)
       # groupby key (dropWhile (\<lambda>y. key y = key x) xs)"
  by pat_completeness auto
termination
  by (relation "measure (\<lambda>(key, xs). length xs)")
     (auto simp: length_dropWhile_le less_Suc_eq_le)

text \<open>
  \<^verbatim>\<open>sorted(xs, key=lambda p: p.account_label or "")\<close> is a stable sort; strings compare
  lexicographically by character code. The groups are then
  \<^verbatim>\<open>groupby(positions_sorted, key=lambda p: p.account_label)\<close>.
\<close>

definition position_groups :: "PositionData list \<Rightarrow> (string option \<times> PositionData list) list" where
  "position_groups positions_data =
     groupby PositionData.account_label
       (sort_key (\<lambda>p. get_or (PositionData.account_label p) []) positions_data)"

definition activity_groups :: "ActivityData list \<Rightarrow> (string option \<times> ActivityData list) list" where
  "activity_groups activities_data =
     groupby ActivityData.account_label
       (sort_key (\<lambda>a. get_or (ActivityData.account_label a) []) activities_data)"

section \<open>Text formatting\<close>

text \<open>
  The pieces of Python's format mini-language that \<^verbatim>\<open>formatters.py\<close> and
  \<^verbatim>\<open>assets.py\<close> use. \<open>ljust n s\<close> is \<^verbatim>\<open>f"{s:<n}"\<close>, \<open>rjust n s\<close> is \<^verbatim>\<open>f"{s:>n}"\<close>
  (lengths count bytes here, code points in Python: the same on ASCII), and
  \<open>format_f w c p x\<close> is \<^verbatim>\<open>f"{x:>w,.pf}"\<close> (with the comma when \<open>c\<close> holds, no padding
  when \<open>w = 0\<close>): the exact value of the float rounded to \<open>p\<close> decimals, ties to even.
\<close>

definition nl :: string where
  "nl = [CHR 0x0A]"

definition ljust :: "nat \<Rightarrow> string \<Rightarrow> string" where
  "ljust n s = s @ replicate (n - length s) CHR '' ''"

definition rjust :: "nat \<Rightarrow> string \<Rightarrow> string" where
  "rjust n s = replicate (n - length s) CHR '' '' @ s"

definition rule_line :: "char \<Rightarrow> nat \<Rightarrow> string" where
  "rule_line c n = replicate n c"

fun join_nl :: "string list \<Rightarrow> string" where
  "join_nl [] = []"
| "join_nl [l] = l"
| "join_nl (l # ls) = l @ nl @ join_nl ls"

definition digit_char :: "int \<Rightarrow> char" where
  "digit_char d = ''0123456789'' ! nat (d mod 10)"

function digits :: "int \<Rightarrow> string" where
  "digits n = (if n < 10 then [digit_char n] else digits (n div 10) @ [digit_char (n mod 10)])"
  by pat_completeness auto
termination
  by (relation "measure nat") auto

function group3 :: "string \<Rightarrow> string" where
  "group3 s =
     (if length s \<le> 3 then s
      else group3 (take (length s - 3) s) @ '','' @ drop (length s - 3) s)"
  by pat_completeness auto
termination
  by (relation "measure length") auto

definition format_f :: "nat \<Rightarrow> bool \<Rightarrow> nat \<Rightarrow> pyfloat \<Rightarrow> string" where
  "format_f width comma prec x =
     (let n = round_half_even (\<bar>x\<bar> * 10 ^ prec);
          whole = digits (n div 10 ^ prec);
          frac = digits (n mod 10 ^ prec);
          frac = replicate (prec - length frac) CHR ''0'' @ frac
      in rjust width
           ((if x < 0 then ''-'' else [])
            @ (if comma then group3 whole else whole) @ ''.'' @ frac))"

text \<open>
  \<^verbatim>\<open>json.dumps(value, indent=2)\<close> and \<^verbatim>\<open>csv.writer(output).writerow(row)\<close> belong to
  Python's library. The formatters build a JSON value, or a list of rows, and hand it to
  them; the two library functions are parameters \<open>dumps\<close> and \<open>writerow\<close>.
\<close>

datatype json =
    JNull
  | JString string
  | JNumber pyfloat
  | JArray "json list"
  | JObject "(string \<times> json) list"

datatype csv_cell = CText string | CFloat pyfloat

definition json_opt_str :: "string option \<Rightarrow> json" where
  "json_opt_str s = (case s of None \<Rightarrow> JNull | Some v \<Rightarrow> JString v)"

text \<open>\<^verbatim>\<open>dataclasses.asdict\<close> on the three view models.\<close>

definition asdict_account :: "AccountData \<Rightarrow> json" where
  "asdict_account acc =
     JObject [(''description'', JString (AccountData.description acc)),
              (''number'', JString (AccountData.number acc)),
              (''value'', JNumber (AccountData.value acc)),
              (''currency'', JString (AccountData.currency acc))]"

definition asdict_activity :: "ActivityData \<Rightarrow> json" where
  "asdict_activity act =
     JObject [(''date'', JString (ActivityData.date act)),
              (''activity_type'', JString (ActivityData.activity_type act)),
              (''description'', JString (ActivityData.description act)),
              (''amount'', JNumber (ActivityData.amount act)),
              (''currency'', JString (ActivityData.currency act)),
              (''sign'', JString (ActivityData.sign act)),
              (''account_label'', json_opt_str (ActivityData.account_label act))]"

definition asdict_position :: "PositionData \<Rightarrow> json" where
  "asdict_position pos =
     JObject [(''symbol'', JString (symbol pos)),
              (''name'', JString (name pos)),
              (''quantity'', JNumber (quantity pos)),
              (''market_value'', JNumber (market_value pos)),
              (''book_value'', JNumber (book_value pos)),
              (''currency'', JString (PositionData.currency pos)),
              (''pnl'', JNumber (pnl pos)),
              (''pnl_pct'', JNumber (pnl_pct pos)),
              (''account_label'', json_opt_str (PositionData.account_label pos))]"

section \<open>Formatters (\<^verbatim>\<open>formatters.py\<close>)\<close>

subsection \<open>\<^verbatim>\<open>TableFormatter\<close>\<close>

text \<open>\<^verbatim>\<open>f"{'+' if v >= 0 else ''}{v:,.2f}"\<close> and \<^verbatim>\<open>f"{'+' if v >= 0 else ''}{v:.1f}%"\<close>.\<close>

definition pnl_str_of :: "pyfloat \<Rightarrow> string" where
  "pnl_str_of v = (if 0 \<le> v then ''+'' else []) @ format_f 0 True 2 v"

definition pnl_pct_str_of :: "pyfloat \<Rightarrow> string" where
  "pnl_pct_str_of v = (if 0 \<le> v then ''+'' else []) @ format_f 0 False 1 v @ ''%''"

definition format_position_row :: "PositionData \<Rightarrow> string" where
  "format_position_row pos =
     ljust 10 (symbol pos) @ '' '' @ ljust 30 (name pos) @ '' ''
     @ format_f 10 False 2 (quantity pos) @ '' ''
     @ format_f 12 True 2 (market_value pos) @ '' '' @ PositionData.currency pos @ '' ''
     @ rjust 13 (pnl_str_of (pnl pos)) @ '' '' @ rjust 8 (pnl_pct_str_of (pnl_pct pos))"

definition format_totals_row :: "pyfloat \<Rightarrow> pyfloat \<Rightarrow> pyfloat \<Rightarrow> string \<Rightarrow> string \<Rightarrow> string" where
  "format_totals_row total_value total_pnl total_pnl_pct label cur =
     ljust 51 label @ '' '' @ format_f 13 True 2 total_value @ '' '' @ cur @ '' ''
     @ rjust 13 (pnl_str_of total_pnl) @ '' '' @ rjust 8 (pnl_pct_str_of total_pnl_pct)"

text \<open>
  \<^verbatim>\<open>TableFormatter.format_accounts\<close>: the list \<^verbatim>\<open>lines\<close> for a non-empty input, then
  the method itself.
\<close>

definition table_accounts_lines :: "(rat \<Rightarrow> pyfloat) \<Rightarrow> AccountData list \<Rightarrow> string list" where
  "table_accounts_lines rnd accounts =
     [nl @ rule_line CHR ''='' 80,
      ljust 40 ''Account'' @ '' '' @ ljust 20 ''Number'' @ '' '' @ rjust 18 ''Value'',
      rule_line CHR ''-'' 80]
     @ map (\<lambda>acc. ljust 40 (AccountData.description acc) @ '' ''
                   @ ljust 20 (AccountData.number acc) @ '' ''
                   @ format_f 15 True 2 (AccountData.value acc) @ '' ''
                   @ AccountData.currency acc) accounts
     @ [rule_line CHR ''='' 80,
        ljust 61 ''Total'' @ '' ''
          @ format_f 15 True 2 (plain_sum rnd (map AccountData.value accounts)) @ '' CAD'',
        rule_line CHR ''='' 80]"

definition TableFormatter_format_accounts :: "(rat \<Rightarrow> pyfloat) \<Rightarrow> AccountData list \<Rightarrow> string" where
  "TableFormatter_format_accounts rnd accounts =
     (if accounts = [] then ''No accounts found.''
      else join_nl (table_accounts_lines rnd accounts))"

text \<open>
  \<^verbatim>\<open>TableFormatter.format_activities\<close>: the loop carries \<^verbatim>\<open>current_account\<close>
  (\<open>None\<close> at the start).
\<close>

definition activities_header :: string where
  "activities_header =
     ljust 12 ''Date'' @ '' '' @ ljust 14 ''Type'' @ '' '' @ ljust 34 ''Description'' @ '' ''
     @ rjust 18 ''Amount''"

definition activity_row :: "ActivityData \<Rightarrow> string" where
  "activity_row act =
     ljust 12 (date act) @ '' '' @ ljust 14 (activity_type act) @ '' ''
     @ ljust 34 (ActivityData.description act) @ '' ''
     @ sign act @ format_f 14 True 2 (amount act) @ '' '' @ ActivityData.currency act"

fun table_activities_loop :: "string option \<Rightarrow> ActivityData list \<Rightarrow> string list" where
  "table_activities_loop current_account [] = []"
| "table_activities_loop current_account (act # rest) =
     (if truthy_str (ActivityData.account_label act)
         \<and> ActivityData.account_label act \<noteq> current_account
      then (if current_account \<noteq> None then [rule_line CHR ''='' 80] else [])
           @ [nl @ rule_line CHR ''='' 80,
              ''Account: '' @ the (ActivityData.account_label act),
              rule_line CHR ''='' 80,
              activities_header,
              rule_line CHR ''-'' 80,
              activity_row act]
           @ table_activities_loop (ActivityData.account_label act) rest
      else if current_account = None
      then [nl @ rule_line CHR ''='' 80, activities_header, rule_line CHR ''-'' 80,
            activity_row act]
           @ table_activities_loop (Some []) rest
      else activity_row act # table_activities_loop current_account rest)"

definition TableFormatter_format_activities :: "ActivityData list \<Rightarrow> string" where
  "TableFormatter_format_activities activities =
     (if activities = [] then ''No activities found.''
      else join_nl (table_activities_loop None activities @ [rule_line CHR ''='' 80]))"

text \<open>\<^verbatim>\<open>TableFormatter.format_positions\<close>: the list \<^verbatim>\<open>lines\<close>, then the method.\<close>

definition table_positions_lines ::
  "cpython_sum \<Rightarrow> (rat \<Rightarrow> pyfloat) \<Rightarrow> PositionData list \<Rightarrow> bool \<Rightarrow> string option \<Rightarrow> string list" where
  "table_positions_lines ver rnd positions show_totals group_label =
     (if truthy_str group_label
      then [nl @ rule_line CHR ''='' 94, ''Account: '' @ the group_label, rule_line CHR ''='' 94]
      else [nl @ rule_line CHR ''='' 94])
     @ [ljust 10 ''Symbol'' @ '' '' @ ljust 30 ''Name'' @ '' '' @ rjust 10 ''Qty'' @ '' ''
        @ rjust 16 ''Market Value'' @ '' '' @ rjust 14 ''P&L'' @ '' '' @ rjust 8 ''P&L %'',
        rule_line CHR ''-'' 94]
     @ map format_position_row positions
     @ (if show_totals
        then (let (total_value, total_book, total_pnl, total_pnl_pct) =
                    calculate_position_totals ver rnd positions;
                  label = (if truthy_str group_label then ''Account Total'' else ''Total'');
                  cur = (case positions of [] \<Rightarrow> ''CAD'' | p # _ \<Rightarrow> PositionData.currency p)
              in [rule_line CHR ''='' 94,
                  format_totals_row total_value total_pnl total_pnl_pct label cur,
                  rule_line CHR ''='' 94])
        else [])"

definition TableFormatter_format_positions ::
  "cpython_sum \<Rightarrow> (rat \<Rightarrow> pyfloat) \<Rightarrow> PositionData list \<Rightarrow> bool \<Rightarrow> string option \<Rightarrow> string" where
  "TableFormatter_format_positions ver rnd positions show_totals group_label =
     (if positions = [] then ''No positions found.''
      else join_nl (table_positions_lines ver rnd positions show_totals group_label))"

subsection \<open>\<^verbatim>\<open>JsonFormatter\<close>\<close>

definition JsonFormatter_format_accounts :: "(json \<Rightarrow> string) \<Rightarrow> AccountData list \<Rightarrow> string" where
  "JsonFormatter_format_accounts dumps accounts = dumps (JArray (map asdict_account accounts))"

definition JsonFormatter_format_activities :: "(json \<Rightarrow> string) \<Rightarrow> ActivityData list \<Rightarrow> string" where
  "JsonFormatter_format_activities dumps activities =
     dumps (JArray (map asdict_activity activities))"

text \<open>The value that \<^verbatim>\<open>JsonFormatter.format_positions\<close> passes to \<^verbatim>\<open>json.dumps\<close>.\<close>

definition json_positions_value ::
  "cpython_sum \<Rightarrow> (rat \<Rightarrow> pyfloat) \<Rightarrow> PositionData list \<Rightarrow> bool \<Rightarrow> string option \<Rightarrow> json" where
  "json_positions_value ver rnd positions show_totals group_label =
     (let data = map asdict_position positions
      in if show_totals \<and> positions \<noteq> []
         then (let total_value = py_sum ver rnd (map market_value positions);
                   total_book = py_sum ver rnd (map book_value positions);
                   total_pnl = rnd (total_value - total_book);
                   total_pnl_pct =
                     (if total_book \<noteq> 0 then rnd (rnd (total_pnl / total_book) * 100) else 0);
                   cur = (case positions of [] \<Rightarrow> ''CAD'' | p # _ \<Rightarrow> PositionData.currency p)
               in JObject
                    ([(''positions'', JArray data),
                      (''totals'',
                         JObject [(''market_value'', JNumber total_value),
                                  (''book_value'', JNumber total_book),
                                  (''pnl'', JNumber total_pnl),
                                  (''pnl_pct'', JNumber total_pnl_pct),
                                  (''currency'', JString cur)])]
                     @ (if truthy_str group_label
                        then [(''group'', JString (the group_label))] else [])))
         else JArray data)"

definition JsonFormatter_format_positions ::
  "(json \<Rightarrow> string) \<Rightarrow> cpython_sum \<Rightarrow> (rat \<Rightarrow> pyfloat) \<Rightarrow> PositionData list \<Rightarrow> bool \<Rightarrow> string option
     \<Rightarrow> string" where
  "JsonFormatter_format_positions dumps ver rnd positions show_totals group_label =
     dumps (json_positions_value ver rnd positions show_totals group_label)"

subsection \<open>\<^verbatim>\<open>CsvFormatter\<close>\<close>

text \<open>\<^verbatim>\<open>output.getvalue()\<close> after the rows were written in order.\<close>

definition csv_getvalue :: "(csv_cell list \<Rightarrow> string) \<Rightarrow> csv_cell list list \<Rightarrow> string" where
  "csv_getvalue writerow rows = concat (map writerow rows)"

definition csv_accounts_rows :: "AccountData list \<Rightarrow> csv_cell list list" where
  "csv_accounts_rows accounts =
     [CText ''description'', CText ''number'', CText ''value'', CText ''currency'']
     # map (\<lambda>acc. [CText (AccountData.description acc), CText (AccountData.number acc),
                     CFloat (AccountData.value acc), CText (AccountData.currency acc)])
           accounts"

definition CsvFormatter_format_accounts ::
  "(csv_cell list \<Rightarrow> string) \<Rightarrow> AccountData list \<Rightarrow> string" where
  "CsvFormatter_format_accounts writerow accounts =
     (if accounts = [] then [] else csv_getvalue writerow (csv_accounts_rows accounts))"

definition csv_activities_rows :: "ActivityData list \<Rightarrow> csv_cell list list" where
  "csv_activities_rows activities =
     [CText ''date'', CText ''activity_type'', CText ''description'', CText ''amount'',
      CText ''currency'', CText ''sign'', CText ''account_label'']
     # map (\<lambda>act. [CText (date act), CText (activity_type act),
                     CText (ActivityData.description act), CFloat (amount act),
                     CText (ActivityData.currency act), CText (sign act),
                     CText (get_or (ActivityData.account_label act) [])])
           activities"

definition CsvFormatter_format_activities ::
  "(csv_cell list \<Rightarrow> string) \<Rightarrow> ActivityData list \<Rightarrow> string" where
  "CsvFormatter_format_activities writerow activities =
     (if activities = [] then [] else csv_getvalue writerow (csv_activities_rows activities))"

definition csv_positions_rows ::
  "cpython_sum \<Rightarrow> (rat \<Rightarrow> pyfloat) \<Rightarrow> PositionData list \<Rightarrow> bool \<Rightarrow> string option \<Rightarrow> csv_cell list list" where
  "csv_positions_rows ver rnd positions show_totals group_label =
     [CText ''symbol'', CText ''name'', CText ''quantity'', CText ''market_value'',
      CText ''book_value'', CText ''currency'', CText ''pnl'', CText ''pnl_pct'',
      CText ''account_label'']
     # map (\<lambda>pos. [CText (symbol pos), CText (name pos), CFloat (quantity pos),
                     CFloat (market_value pos), CFloat (book_value pos),
                     CText (PositionData.currency pos), CFloat (pnl pos), CFloat (pnl_pct pos),
                     CText (get_or (PositionData.account_label pos) [])])
           positions
     @ (if show_totals \<and> positions \<noteq> []
        then (let (total_value, total_book, total_pnl, total_pnl_pct) =
                    calculate_position_totals ver rnd positions;
                  cur = (case positions of [] \<Rightarrow> ''CAD'' | p # _ \<Rightarrow> PositionData.currency p)
              in [[CText ''TOTAL'', CText [], CFloat (py_sum ver rnd (map quantity positions)),
                   CFloat total_value, CFloat total_book, CText cur, CFloat total_pnl,
                   CFloat total_pnl_pct, CText (get_or group_label [])]])
        else [])"

definition CsvFormatter_format_positions ::
  "(csv_cell list \<Rightarrow> string) \<Rightarrow> cpython_sum \<Rightarrow> (rat \<Rightarrow> pyfloat) \<Rightarrow> PositionData list \<Rightarrow> bool
     \<Rightarrow> string option \<Rightarrow> string" where
  "CsvFormatter_format_positions writerow ver rnd positions show_totals group_label =
     (if positions = [] then []
      else csv_getvalue writerow (csv_positions_rows ver rnd positions show_totals group_label))"

subsection \<open>Choosing a formatter\<close>

datatype formatter = TableFormatter | JsonFormatter | CsvFormatter

text \<open>\<^verbatim>\<open>get_formatter\<close>: unknown names fall back to the table formatter.\<close>

definition get_formatter :: "string \<Rightarrow> formatter" where
  "get_formatter format_type =
     (let t = str_lower format_type
      in if t = ''json'' then JsonFormatter
         else if t = ''csv'' then CsvFormatter
         else TableFormatter)"

definition format_accounts ::
  "(json \<Rightarrow> string) \<Rightarrow> (csv_cell list \<Rightarrow> string) \<Rightarrow> (rat \<Rightarrow> pyfloat) \<Rightarrow> formatter
     \<Rightarrow> AccountData list \<Rightarrow> string" where
  "format_accounts dumps writerow rnd f accounts =
     (case f of
        TableFormatter \<Rightarrow> TableFormatter_format_accounts rnd accounts
      | JsonFormatter \<Rightarrow> JsonFormatter_format_accounts dumps accounts
      | CsvFormatter \<Rightarrow> CsvFormatter_format_accounts writerow accounts)"

definition format_activities ::
  "(json \<Rightarrow> string) \<Rightarrow> (csv_cell list \<Rightarrow> string) \<Rightarrow> formatter
     \<Rightarrow> ActivityData list \<Rightarrow> string" where
  "format_activities dumps writerow f activities =
     (case f of
        TableFormatter \<Rightarrow> TableFormatter_format_activities activities
      | JsonFormatter \<Rightarrow> JsonFormatter_format_activities dumps activities
      | CsvFormatter \<Rightarrow> CsvFormatter_format_activities writerow activities)"

definition format_positions ::
  "(json \<Rightarrow> string) \<Rightarrow> (csv_cell list \<Rightarrow> string) \<Rightarrow> cpython_sum \<Rightarrow> (rat \<Rightarrow> pyfloat) \<Rightarrow> formatter
     \<Rightarrow> PositionData list \<Rightarrow> bool \<Rightarrow> string option \<Rightarrow> string" where
  "format_positions dumps writerow ver rnd f positions show_totals group_label =
     (case f of
        TableFormatter \<Rightarrow> TableFormatter_format_positions ver rnd positions show_totals group_label
      | JsonFormatter \<Rightarrow>
          JsonFormatter_format_positions dumps ver rnd positions show_totals group_label
      | CsvFormatter \<Rightarrow>
          CsvFormatter_format_positions writerow ver rnd positions show_totals group_label)"

section \<open>The by-account positions report (\<^verbatim>\<open>assets.py\<close>)\<close>

text \<open>
  \<^verbatim>\<open>_print_positions_by_account\<close>; the result is the list of strings printed, one per
  \<^verbatim>\<open>print\<close> call.
\<close>

definition print_positions_by_account ::
  "(json \<Rightarrow> string) \<Rightarrow> (csv_cell list \<Rightarrow> string) \<Rightarrow> cpython_sum \<Rightarrow> (rat \<Rightarrow> pyfloat) \<Rightarrow> formatter
     \<Rightarrow> PositionData list \<Rightarrow> string list" where
  "print_positions_by_account dumps writerow ver rnd f positions_data =
     map (\<lambda>(label, grp). format_positions dumps writerow ver rnd f grp True label)
         (position_groups positions_data)
     @ (let (total_value, total_pnl, total_pnl_pct) =
              assets_calculate_position_totals ver rnd positions_data;
            currency_str =
              (case positions_data of [] \<Rightarrow> ''CAD'' | p # _ \<Rightarrow> PositionData.currency p)
        in [nl @ rule_line CHR ''='' 94,
            ljust 51 ''Grand Total'' @ '' '' @ format_f 13 True 2 total_value @ '' ''
              @ currency_str @ '' '' @ rjust 13 (pnl_str_of total_pnl) @ '' ''
              @ rjust 8 (pnl_pct_str_of total_pnl_pct),
            rule_line CHR ''='' 94])"

section \<open>Example inputs\<close>

text \<open>
  A market-data capability that knows one security, fails on a second and returns
  nothing for the rest; the positions and accounts of the repository's test fixtures,
  with one position held in two accounts and one with no gain or loss.
\<close>

definition ex_ws :: market_api where
  "ex_ws calls security_id =
     (if security_id = ''sec-s-1''
      then Returned (Some (MarketData (Some [(''symbol'', ''VFV''), (''name'', ''Vanguard S&P 500'')])))
      else if security_id = ''sec-s-2'' then Raised
      else Returned None)"

definition ex_position :: "string \<Rightarrow> string list \<Rightarrow> pyfloat \<Rightarrow> pyfloat \<Rightarrow> raw_position" where
  "ex_position security_id account_ids market book =
     \<lparr>p_quantity = Some 10,
      p_accounts = map (\<lambda>i. \<lparr>r_id = Some i\<rparr>) account_ids,
      p_security_id = Some security_id,
      p_totalValue = Some \<lparr>m_amount = Some market, m_currency = Some ''CAD''\<rparr>,
      p_bookValue = Some \<lparr>m_amount = Some book, m_currency = Some ''CAD''\<rparr>\<rparr>"

definition ex_positions :: "raw_position list" where
  "ex_positions =
     [ex_position ''sec-s-1'' [''acc-1''] 2525 2400,
      ex_position ''sec-s-2'' [''acc-1'', ''acc-2''] 3150 3000,
      ex_position ''sec-s-3'' [''acc-2''] 1800 2000,
      ex_position ''sec-s-1'' [''acc-2''] 10 10]"

definition ex_account :: "string \<Rightarrow> string \<Rightarrow> string \<Rightarrow> pyfloat \<Rightarrow> string \<Rightarrow> raw_account" where
  "ex_account i descr num val cur =
     \<lparr>a_id = Some i, a_description = Some descr, a_number = Some num,
      a_netLiquidationValue = Some \<lparr>m_amount = Some val, m_currency = Some cur\<rparr>\<rparr>"

definition ex_accounts :: "raw_account list" where
  "ex_accounts =
     [ex_account ''acc-1'' ''TFSA'' ''ACC-001'' 1000 ''CAD'',
      ex_account ''acc-2'' ''My RRSP'' ''ACC-002'' 5000 ''CAD'',
      ex_account ''acc-3'' ''Private Credit Fund'' ''ACC-003'' 0 ''CAD'',
      ex_account ''acc-4'' ''Cash'' ''ACC-004'' 0 ''CAD'']"

text \<open>
  An activity whose raw amount is negative while its sign indicator says positive, with
  simple stand-ins for the two helpers of \<^verbatim>\<open>_transform_activity\<close>; and a single
  account held in US dollars.
\<close>

definition ex_activity :: raw_activity where
  "ex_activity =
     \<lparr>act_type = Some ''DIVIDEND'', act_description = Some ''Dividend'',
      act_occurredAt = Some ''2024-01-15T10:30:00Z'', act_amount = Some (- 255),
      act_amountSign = Some ''positive'', act_currency = Some ''CAD''\<rparr>"

definition ex_format_date :: "string \<Rightarrow> string" where
  "ex_format_date iso_date = (if 10 \<le> length iso_date then take 10 iso_date else ''N/A'')"

definition ex_enhance_description :: "raw_activity \<Rightarrow> string" where
  "ex_enhance_description activity = get_or (act_description activity) ''N/A''"

definition ex_usd_accounts :: "raw_account list" where
  "ex_usd_accounts = [ex_account ''acc-9'' ''US Cash'' ''ACC-009'' 1000 ''USD'']"

section \<open>The grouping the specification describes\<close>

text \<open>
  In the words of the specification: a stable partition by label, the groups in the order
  in which their labels first appear, each group holding all items with that label in
  their original order. It is compared with \<open>position_groups\<close> and \<open>activity_groups\<close>.
\<close>

function first_appearance :: "'k list \<Rightarrow> 'k list" where
  "first_appearance [] = []"
| "first_appearance (k # ks) = k # first_appearance (filter (\<lambda>j. j \<noteq> k) ks)"
  by pat_completeness auto
termination
  by (relation "measure length") (auto simp: less_Suc_eq_le)

definition stable_partition :: "('a \<Rightarrow> 'k) \<Rightarrow> 'a list \<Rightarrow> ('k \<times> 'a list) list" where
  "stable_partition key xs =
     map (\<lambda>k. (k, filter (\<lambda>x. key x = k) xs)) (first_appearance (map key xs))"

text \<open>The view models of the example positions in the by-account view.\<close>

definition ex_views :: "PositionData list" where
  "ex_views = fst (get_assets_data binary64 ex_ws ex_positions ex_accounts None True ''CAD'' None)"

definition ex_activity_views :: "ActivityData list" where
  "ex_activity_views =
     [transform_activity ex_format_date ex_enhance_description ex_activity
        (Some ''TFSA (ACC-001)''),
      transform_activity ex_format_date ex_enhance_description ex_activity
        (Some ''My RRSP (ACC-002)'')]"

section \<open>The sum of the group subtotals\<close>

text \<open>
  The by-account report shows, for each group, the totals that \<^verbatim>\<open>format_positions\<close>
  computes with \<^verbatim>\<open>_calculate_position_totals(group)\<close>. In the words of the
  specification, the sums of these subtotals (market value and profit and loss), to be
  compared with the grand total.
\<close>

definition group_subtotals ::
  "cpython_sum \<Rightarrow> (rat \<Rightarrow> pyfloat) \<Rightarrow> PositionData list \<Rightarrow> (pyfloat \<times> pyfloat \<times> pyfloat \<times> pyfloat) list" where
  "group_subtotals ver rnd positions_data =
     map (\<lambda>(label, grp). calculate_position_totals ver rnd grp) (position_groups positions_data)"

definition sum_of_subtotal_values :: "cpython_sum \<Rightarrow> (rat \<Rightarrow> pyfloat) \<Rightarrow> PositionData list \<Rightarrow> pyfloat" where
  "sum_of_subtotal_values ver rnd positions_data =
     py_sum ver rnd (map (\<lambda>(tv, tb, tp, tpp). tv) (group_subtotals ver rnd positions_data))"

definition sum_of_subtotal_pnls :: "cpython_sum \<Rightarrow> (rat \<Rightarrow> pyfloat) \<Rightarrow> PositionData list \<Rightarrow> pyfloat" where
  "sum_of_subtotal_pnls ver rnd positions_data =
     py_sum ver rnd (map (\<lambda>(tv, tb, tp, tpp). tp) (group_subtotals ver rnd positions_data))"

text \<open>
  Four positions with no book value: 0.01 and 0.02 in one account, 0.01 and 0.07 in
  another (the doubles that \<^verbatim>\<open>float("0.01")\<close> and so on denote).
\<close>

definition ex_cent_positions :: "raw_position list" where
  "ex_cent_positions =
     [ex_position ''sec-s-1'' [''acc-1''] (binary64 (1 / 100)) 0,
      ex_position ''sec-s-2'' [''acc-1''] (binary64 (2 / 100)) 0,
      ex_position ''sec-s-3'' [''acc-2''] (binary64 (1 / 100)) 0,
      ex_position ''sec-s-4'' [''acc-2''] (binary64 (7 / 100)) 0]"

definition ex_cent_views :: "PositionData list" where
  "ex_cent_views =
     fst (get_assets_data binary64 ex_ws ex_cent_positions ex_accounts None True ''CAD'' None)"

section \<open>Ownership of positions\<close>






section \<open>Auxiliary facts\<close>

lemma foldl_add_exact: "foldl (\<lambda>acc x. acc + x) (a::rat) xs = a + sum_list xs"
  by (induction xs arbitrary: a) (simp_all add: algebra_simps)

lemma plain_sum_exact: "plain_sum (\<lambda>x. x) xs = sum_list xs"
  by (simp add: plain_sum_def foldl_add_exact)

lemma neumaier_exact:
  "foldl (neumaier_step (\<lambda>x. x)) (f, 0) xs = (f + sum_list xs, 0)"
proof (induction xs arbitrary: f)
  case Nil
  show ?case by simp
next
  case (Cons x xs)
  have "neumaier_step (\<lambda>x. x) (f, 0) x = (f + x, 0)"
    by (simp add: neumaier_step_def neumaier_update_def)
  then show ?case
    by (simp add: Cons.IH algebra_simps)
qed

lemma compensated_sum_exact: "compensated_sum (\<lambda>x. x) xs = sum_list xs"
  by (cases xs) (simp_all add: compensated_sum_def neumaier_finish_def neumaier_exact)

lemma py_sum_exact: "py_sum ver (\<lambda>x. x) xs = sum_list xs"
  by (cases ver) (simp_all add: py_sum_def plain_sum_exact compensated_sum_exact)

lemma length_position_data_list:
  "length (fst (position_data_list rnd ws positions cache calls cur)) = length positions"
proof (induction positions arbitrary: cache calls)
  case Nil
  show ?case by simp
next
  case (Cons pos rest)
  obtain d c1 l1 where g: "get_position_data rnd ws pos cache calls cur = (d, c1, l1)"
    by (cases "get_position_data rnd ws pos cache calls cur")
  obtain more c2 l2 where r: "position_data_list rnd ws rest c1 l1 cur = (more, c2, l2)"
    by (cases "position_data_list rnd ws rest c1 l1 cur")
  from Cons.IH [of c1 l1] r have "length more = length rest"
    by simp
  with g r show ?case
    by simp
qed

lemma accounts_loop_liquid_only:
  "accounts_loop accounts sz True False
     = filter (\<lambda>v. \<not> is_non_liquid_account (AccountData.description v))
         (accounts_loop accounts sz False False)"
  by (induction accounts) (auto simp: should_include_account_def Let_def split: prod.splits)

lemma accounts_loop_not_liquid:
  "accounts_loop accounts sz False True
     = filter (\<lambda>v. is_non_liquid_account (AccountData.description v))
         (accounts_loop accounts sz False False)"
  by (induction accounts) (auto simp: should_include_account_def Let_def split: prod.splits)

lemma concat_groupby: "concat (map snd (groupby key xs)) = xs"
  by (induction key xs rule: groupby.induct) simp_all

lemma sorted_run_split:
  "sorted (map f (x # xs)) \<Longrightarrow>
     takeWhile (\<lambda>y. f y = f x) xs = filter (\<lambda>y. f y = f x) xs
     \<and> dropWhile (\<lambda>y. f y = f x) xs = filter (\<lambda>y. f y \<noteq> f x) xs"
proof (induction xs)
  case Nil
  show ?case by simp
next
  case (Cons y ys)
  show ?case
  proof (cases "f y = f x")
    case True
    from Cons.prems have "sorted (map f (x # ys))"
      by simp
    from Cons.IH [OF this] True show ?thesis
      by simp
  next
    case False
    from Cons.prems have le: "\<forall>z\<in>set ys. f y \<le> f z" and "f x \<le> f y"
      by simp_all
    with False have "f x < f y"
      by simp
    with le have "\<forall>z\<in>set ys. f x < f z"
      by fastforce
    then have "\<forall>z\<in>set ys. f z \<noteq> f x"
      by fastforce
    with False show ?thesis
      by (simp add: filter_empty_conv filter_id_conv)
  qed
qed

lemma groupby_sorted:
  fixes f :: "'a \<Rightarrow> 'b::linorder"
  assumes "sorted (map f ys)" and "\<forall>x\<in>set ys. key x = g (f x)" and "inj g"
  shows "groupby key ys
           = map (\<lambda>v. (g v, filter (\<lambda>x. f x = v) ys)) (sorted_list_of_set (f ` set ys))"
  using assms(1,2)
proof (induction key ys rule: groupby.induct)
  case (1 key)
  show ?case by simp
next
  case (2 key x xs)
  let ?dw = "filter (\<lambda>y. f y \<noteq> f x) xs"
  have keyeq: "\<And>y. y \<in> set xs \<Longrightarrow> (key y = key x) = (f y = f x)"
  proof -
    fix y assume "y \<in> set xs"
    with "2.prems"(2) have "key y = g (f y)" "key x = g (f x)"
      by simp_all
    with \<open>inj g\<close> show "(key y = key x) = (f y = f x)"
      by (auto dest: injD)
  qed
  have tw: "takeWhile (\<lambda>y. key y = key x) xs = filter (\<lambda>y. f y = f x) xs"
  proof -
    have "takeWhile (\<lambda>y. key y = key x) xs = takeWhile (\<lambda>y. f y = f x) xs"
      by (rule takeWhile_cong) (simp_all add: keyeq)
    with sorted_run_split [OF "2.prems"(1)] show ?thesis
      by simp
  qed
  have dw: "dropWhile (\<lambda>y. key y = key x) xs = ?dw"
  proof -
    have "dropWhile (\<lambda>y. key y = key x) xs = dropWhile (\<lambda>y. f y = f x) xs"
      by (rule dropWhile_cong) (simp_all add: keyeq)
    with sorted_run_split [OF "2.prems"(1)] show ?thesis
      by simp
  qed
  have sdw: "sorted (map f ?dw)"
    using "2.prems"(1) by (simp add: sorted_filter)
  have kdw: "\<forall>y\<in>set ?dw. key y = g (f y)"
    using "2.prems"(2) by simp
  have IH: "groupby key ?dw
      = map (\<lambda>v. (g v, filter (\<lambda>x. f x = v) ?dw)) (sorted_list_of_set (f ` set ?dw))"
    using "2.IH" sdw kdw unfolding dw by simp
  have gt: "\<forall>v\<in>f ` set ?dw. f x < v"
  proof
    fix v assume "v \<in> f ` set ?dw"
    then obtain y where y: "y \<in> set xs" "f y \<noteq> f x" "v = f y"
      by auto
    from "2.prems"(1) y(1) have "f x \<le> f y"
      by simp
    with y show "f x < v"
      by simp
  qed
  have img: "f ` set (x # xs) = insert (f x) (f ` set ?dw)"
    by auto
  have sl: "sorted_list_of_set (f ` set (x # xs)) = f x # sorted_list_of_set (f ` set ?dw)"
  proof -
    have "f x \<notin> f ` set ?dw"
      using gt by auto
    then have "sorted_list_of_set (insert (f x) (f ` set ?dw))
                 = insort (f x) (sorted_list_of_set (f ` set ?dw))"
      by simp
    also have "\<dots> = f x # sorted_list_of_set (f ` set ?dw)"
      by (rule insort_is_Cons) (use gt in \<open>auto simp: less_imp_le\<close>)
    finally show ?thesis
      by (simp only: img)
  qed
  have rest: "map (\<lambda>v. (g v, filter (\<lambda>x. f x = v) ?dw)) (sorted_list_of_set (f ` set ?dw))
     = map (\<lambda>v. (g v, filter (\<lambda>y. f y = v) (x # xs))) (sorted_list_of_set (f ` set ?dw))"
  proof (rule map_cong [OF refl])
    fix v assume "v \<in> set (sorted_list_of_set (f ` set ?dw))"
    then have "v \<in> f ` set ?dw" by simp
    with gt have "f x < v" by blast
    then have "f x \<noteq> v" by simp
    then have "filter (\<lambda>y. f y = v) ?dw = filter (\<lambda>y. f y = v) xs"
      by (auto intro: filter_cong)
    with \<open>f x \<noteq> v\<close> show "(g v, filter (\<lambda>x. f x = v) ?dw) = (g v, filter (\<lambda>y. f y = v) (x # xs))"
      by simp
  qed
  have kx: "key x = g (f x)"
    using "2.prems"(2) by simp
  have "groupby key (x # xs)
          = (key x, x # filter (\<lambda>y. f y = f x) xs)
            # map (\<lambda>v. (g v, filter (\<lambda>y. f y = v) (x # xs)))
                (sorted_list_of_set (f ` set ?dw))"
    unfolding groupby.simps tw dw IH rest ..
  also have "\<dots> = map (\<lambda>v. (g v, filter (\<lambda>y. f y = v) (x # xs)))
                       (f x # sorted_list_of_set (f ` set ?dw))"
    by (simp add: kx)
  finally show ?case
    unfolding sl .
qed

section \<open>Profit and loss\<close>

text \<open>
  C1. Every position view produced by \<^verbatim>\<open>_get_position_data\<close> has
  \<open>pnl = market_value - book_value\<close> and \<open>pnl_pct = pnl / book_value * 100\<close> when
  \<open>book_value \<noteq> 0\<close>, and \<open>pnl_pct = 0\<close> when \<open>book_value = 0\<close>. Both copies of
  \<^verbatim>\<open>_calculate_position_totals\<close> follow the same rule on the summed market and book
  values. Each operation is the float operation of the source, for any rounding \<open>rnd\<close>
  and either variant of \<^verbatim>\<open>sum\<close>.
\<close>

theorem pnl_rule:
  "(let d = fst (get_position_data rnd ws position cache calls cur)
    in pnl d = rnd (market_value d - book_value d)
       \<and> pnl_pct d = zero_guarded_pct rnd (pnl d) (book_value d))
   \<and> (let tv = py_sum ver rnd (map market_value ps);
           tb = py_sum ver rnd (map book_value ps)
       in calculate_position_totals ver rnd ps
            = (tv, tb, rnd (tv - tb), zero_guarded_pct rnd (rnd (tv - tb)) tb)
          \<and> assets_calculate_position_totals ver rnd ps
            = (tv, rnd (tv - tb), zero_guarded_pct rnd (rnd (tv - tb)) tb))"
  by (simp add: get_position_data_def calculate_position_totals_def
      assets_calculate_position_totals_def zero_guarded_pct_def Let_def split: prod.splits)

text \<open>
  The figures of the specification, in double arithmetic: book value 2400 and market
  value 2525 give a gain of 125 and the double nearest 5.208333333333334 percent; the two
  positions 2525/2400 and 3150/3000 total 275 and 5.092592592592593 percent; a book value
  of zero gives exactly 0 percent.
\<close>

theorem pnl_rule_witness:
  "(let d = fst (get_position_data binary64 ex_ws (ex_position ''sec-s-1'' [] 2525 2400)
                   Map.empty [] ''CAD'')
    in pnl d = 125 \<and> pnl_pct d = 2932031007402667 / 562949953421312)
   \<and> pnl_pct (fst (get_position_data binary64 ex_ws (ex_position ''sec-s-1'' [] 2525 0)
                     Map.empty [] ''CAD'')) = 0
   \<and> (let ps = fst (position_data_list binary64 ex_ws (take 2 ex_positions) Map.empty [] ''CAD'')
       in calculate_position_totals Compensated_sum binary64 ps
            = (5675, 5400, 275, 5733749525587437 / 1125899906842624)
          \<and> assets_calculate_position_totals Compensated_sum binary64 ps
            = (5675, 275, 5733749525587437 / 1125899906842624))"
proof -
  let ?p1 = "ex_position ''sec-s-1'' [] 2525 2400"
  let ?p0 = "ex_position ''sec-s-1'' [] 2525 0"
  let ?d1 = "fst (get_position_data binary64 ex_ws ?p1 Map.empty [] ''CAD'')"
  let ?d0 = "fst (get_position_data binary64 ex_ws ?p0 Map.empty [] ''CAD'')"
  let ?ps = "fst (position_data_list binary64 ex_ws (take 2 ex_positions) Map.empty [] ''CAD'')"
  have mb1: "market_value ?d1 = 2525" "book_value ?d1 = 2400"
    by code_simp+
  have mb0: "book_value ?d0 = 0"
    by code_simp
  have sums: "py_sum Compensated_sum binary64 (map market_value ?ps) = 5675"
    "py_sum Compensated_sum binary64 (map book_value ?ps) = 5400"
    by code_simp+
  have r1: "binary64 125 = 125" "binary64 275 = 275"
    by code_simp+
  have r2: "zero_guarded_pct binary64 125 2400 = 2932031007402667 / 562949953421312"
    "zero_guarded_pct binary64 275 5400 = 5733749525587437 / 1125899906842624"
    by code_simp+
  have z: "zero_guarded_pct binary64 x 0 = 0" for x
    by (simp add: zero_guarded_pct_def)
  from pnl_rule [where rnd = binary64 and ws = ex_ws and position = ?p1 and cache = Map.empty
                    and calls = "[]" and cur = "''CAD''" and ver = Compensated_sum and ps = ?ps]
    pnl_rule [where rnd = binary64 and ws = ex_ws and position = ?p0 and cache = Map.empty
                and calls = "[]" and cur = "''CAD''" and ver = Compensated_sum and ps = ?ps]
  show ?thesis
    by (simp add: Let_def mb1 mb0 sums r1 r2 z)
qed

text \<open>
  C8. \<^verbatim>\<open>pnl_filter="profit"\<close> keeps exactly the positions with \<open>pnl > 0\<close>,
  \<^verbatim>\<open>pnl_filter="loss"\<close> exactly those with \<open>pnl < 0\<close>, in their order; a position with
  \<open>pnl = 0\<close> is in neither result; without a filter nothing is removed (the aggregated
  view then has one entry per raw position).
\<close>

theorem pnl_filter_rule:
  "fst (get_assets_data rnd ws positions accounts account_id by_account cur (Some ''profit''))
     = filter (\<lambda>p. 0 < pnl p)
         (fst (get_assets_data rnd ws positions accounts account_id by_account cur None))
   \<and> fst (get_assets_data rnd ws positions accounts account_id by_account cur (Some ''loss''))
     = filter (\<lambda>p. pnl p < 0)
         (fst (get_assets_data rnd ws positions accounts account_id by_account cur None))
   \<and> (\<forall>p. pnl p = 0 \<longrightarrow>
         p \<notin> set (fst (get_assets_data rnd ws positions accounts account_id by_account cur
                         (Some ''profit'')))
       \<and> p \<notin> set (fst (get_assets_data rnd ws positions accounts account_id by_account cur
                         (Some ''loss''))))
   \<and> length (fst (get_assets_data rnd ws positions accounts None False cur None))
       = length positions"
proof -
  have a: "fst (get_assets_data rnd ws positions accounts account_id by_account cur (Some ''profit''))
     = filter (\<lambda>p. 0 < pnl p)
         (fst (get_assets_data rnd ws positions accounts account_id by_account cur None))"
    by (simp add: get_assets_data_def Let_def split: prod.splits)
  have b: "fst (get_assets_data rnd ws positions accounts account_id by_account cur (Some ''loss''))
     = filter (\<lambda>p. pnl p < 0)
         (fst (get_assets_data rnd ws positions accounts account_id by_account cur None))"
    by (simp add: get_assets_data_def Let_def split: prod.splits)
  have c: "length (fst (get_assets_data rnd ws positions accounts None False cur None))
       = length positions"
  proof (cases "positions = []")
    case True
    then show ?thesis
      by (simp add: get_assets_data_def)
  next
    case False
    obtain ds c l where r: "position_data_list rnd ws positions Map.empty [] cur = (ds, c, l)"
      by (cases "position_data_list rnd ws positions Map.empty [] cur")
    from length_position_data_list [of rnd ws positions Map.empty "[]" cur] r
    have "length ds = length positions"
      by simp
    with False r show ?thesis
      by (simp add: get_assets_data_def truthy_str_def Let_def)
  qed
  show ?thesis
    unfolding a b using c by simp
qed

theorem pnl_filter_rule_witness:
  "map pnl (fst (get_assets_data binary64 ex_ws ex_positions ex_accounts None False ''CAD'' None))
     = [125, 150, - 200, 0]
   \<and> map pnl (fst (get_assets_data binary64 ex_ws ex_positions ex_accounts None False ''CAD''
                     (Some ''profit''))) = [125, 150]
   \<and> map pnl (fst (get_assets_data binary64 ex_ws ex_positions ex_accounts None False ''CAD''
                     (Some ''loss''))) = [- 200]"
proof -
  have base:
    "map pnl (fst (get_assets_data binary64 ex_ws ex_positions ex_accounts None False ''CAD'' None))
       = [125, 150, - 200, 0]"
    by code_simp
  have f: "map pnl (filter (\<lambda>p. 0 < pnl p) xs) = filter (\<lambda>v. 0 < v) (map pnl xs)"
    "map pnl (filter (\<lambda>p. pnl p < 0) xs) = filter (\<lambda>v. v < 0) (map pnl xs)" for xs
    by (induction xs) simp_all
  from pnl_filter_rule [of binary64 ex_ws ex_positions ex_accounts None False "''CAD''"]
  show ?thesis
    by (simp add: f base)
qed

section \<open>Liquidity filters\<close>

text \<open>
  C3. With the zero-balance setting held equal, \<^verbatim>\<open>liquid_only=True\<close> keeps exactly the
  accounts that are not non-liquid and \<^verbatim>\<open>not_liquid=True\<close> exactly the non-liquid ones:
  the two results are disjoint and together are the unfiltered result. An account is
  non-liquid exactly when its lower-cased description contains one of \<open>rrsp\<close>, \<open>lira\<close>,
  \<open>private equity\<close>, \<open>private credit\<close> as a substring.
\<close>

theorem liquidity_filters_complementary:
  "get_accounts_data accounts sz True False
     = filter (\<lambda>v. \<not> is_non_liquid_account (AccountData.description v))
         (get_accounts_data accounts sz False False)
   \<and> get_accounts_data accounts sz False True
     = filter (\<lambda>v. is_non_liquid_account (AccountData.description v))
         (get_accounts_data accounts sz False False)
   \<and> set (get_accounts_data accounts sz True False)
       \<inter> set (get_accounts_data accounts sz False True) = {}
   \<and> set (get_accounts_data accounts sz True False)
       \<union> set (get_accounts_data accounts sz False True)
       = set (get_accounts_data accounts sz False False)
   \<and> is_non_liquid_account d
       = (\<exists>k \<in> {''rrsp'', ''lira'', ''private equity'', ''private credit''}.
            \<exists>before after. str_lower d = before @ k @ after)"
proof -
  have a: "get_accounts_data accounts sz True False
     = filter (\<lambda>v. \<not> is_non_liquid_account (AccountData.description v))
         (get_accounts_data accounts sz False False)"
    by (simp add: get_accounts_data_def accounts_loop_liquid_only)
  have b: "get_accounts_data accounts sz False True
     = filter (\<lambda>v. is_non_liquid_account (AccountData.description v))
         (get_accounts_data accounts sz False False)"
    by (simp add: get_accounts_data_def accounts_loop_not_liquid)
  have c: "is_non_liquid_account d
       = (\<exists>k \<in> {''rrsp'', ''lira'', ''private equity'', ''private credit''}.
            \<exists>before after. str_lower d = before @ k @ after)"
    by (simp add: is_non_liquid_account_def non_liquid_keywords_def sublist_def list_ex_iff)
  show ?thesis
    apply (intro conjI)
    subgoal by (rule a)
    subgoal by (rule b)
    subgoal unfolding a b by auto
    subgoal unfolding a b by auto
    subgoal by (rule c)
    done
qed

theorem liquidity_filters_complementary_witness:
  "map AccountData.description (get_accounts_data ex_accounts True False False)
     = [''TFSA'', ''My RRSP'', ''Private Credit Fund'', ''Cash'']
   \<and> map AccountData.description (get_accounts_data ex_accounts True True False)
     = [''TFSA'', ''Cash'']
   \<and> map AccountData.description (get_accounts_data ex_accounts True False True)
     = [''My RRSP'', ''Private Credit Fund'']
   \<and> is_non_liquid_account ''LIRAx''"
proof -
  have base: "get_accounts_data ex_accounts True False False
      = [\<lparr>AccountData.description = ''TFSA'', number = ''ACC-001'', value = 1000,
           currency = ''CAD''\<rparr>,
         \<lparr>AccountData.description = ''My RRSP'', number = ''ACC-002'', value = 5000,
           currency = ''CAD''\<rparr>,
         \<lparr>AccountData.description = ''Private Credit Fund'', number = ''ACC-003'', value = 0,
           currency = ''CAD''\<rparr>,
         \<lparr>AccountData.description = ''Cash'', number = ''ACC-004'', value = 0,
           currency = ''CAD''\<rparr>]"
    by code_simp
  have nl: "\<not> is_non_liquid_account ''TFSA''" "is_non_liquid_account ''My RRSP''"
    "is_non_liquid_account ''Private Credit Fund''" "\<not> is_non_liquid_account ''Cash''"
    by code_simp+
  have lx: "str_lower ''LIRAx'' = [] @ ''lira'' @ ''x''"
    by code_simp
  from liquidity_filters_complementary [of ex_accounts True "''LIRAx''"] lx
  show ?thesis
    by (simp add: base nl) blast
qed

section \<open>Security resolution and its cache\<close>

text \<open>
  C4. For both resolvers (\<^verbatim>\<open>_get_security_name\<close> and \<^verbatim>\<open>_get_security_info\<close>): when the
  identifier is a key of the cache, the cached value is returned, the cache is unchanged
  and no external call is made. Every resolution leaves its result in the cache under the
  identifier, whatever the outcome (found, failed lookup, empty identifier), and makes at
  most one external call; resolving the same identifier again, with any capability,
  returns the same result with no further call.
\<close>

theorem resolver_cache_contract:
  "(cache_n security_id = Some v \<longrightarrow>
      get_security_name ws security_id cache_n calls = (v, cache_n, calls))
   \<and> (case get_security_name ws security_id cache_n calls of
         (r, cache', calls') \<Rightarrow>
           cache' = cache_n(security_id \<mapsto> r)
           \<and> (calls' = calls \<or> calls' = calls @ [security_id])
           \<and> get_security_name ws' security_id cache' calls' = (r, cache', calls'))
   \<and> (cache_i security_id = Some w \<longrightarrow>
        get_security_info ws security_id cache_i calls = (w, cache_i, calls))
   \<and> (case get_security_info ws security_id cache_i calls of
         (r, cache', calls') \<Rightarrow>
           cache' = cache_i(security_id \<mapsto> r)
           \<and> (calls' = calls \<or> calls' = calls @ [security_id])
           \<and> get_security_info ws' security_id cache' calls' = (r, cache', calls'))"
proof -
  have n1: "cache_n security_id = Some v \<longrightarrow>
      get_security_name ws security_id cache_n calls = (v, cache_n, calls)"
    by (simp add: get_security_name_def)
  have i1: "cache_i security_id = Some w \<longrightarrow>
        get_security_info ws security_id cache_i calls = (w, cache_i, calls)"
    by (simp add: get_security_info_def)
  have hit_n: "get_security_name ws' security_id (c(security_id \<mapsto> r)) l
                 = (r, c(security_id \<mapsto> r), l)" for c r l
    by (simp add: get_security_name_def)
  have hit_i: "get_security_info ws' security_id (c(security_id \<mapsto> r)) l
                 = (r, c(security_id \<mapsto> r), l)" for c r l
    by (simp add: get_security_info_def)
  have n2: "case get_security_name ws security_id cache_n calls of
         (r, cache', calls') \<Rightarrow>
           cache' = cache_n(security_id \<mapsto> r)
           \<and> (calls' = calls \<or> calls' = calls @ [security_id])
           \<and> get_security_name ws' security_id cache' calls' = (r, cache', calls')"
  proof (cases "cache_n security_id")
    case None
    then show ?thesis
      by (simp add: get_security_name_def Let_def hit_n
          split: fetch_result.splits option.splits prod.splits)
  next
    case (Some v)
    then have "cache_n(security_id \<mapsto> v) = cache_n"
      by (simp add: fun_upd_idem)
    with Some show ?thesis
      by (simp add: get_security_name_def)
  qed
  have i2: "case get_security_info ws security_id cache_i calls of
         (r, cache', calls') \<Rightarrow>
           cache' = cache_i(security_id \<mapsto> r)
           \<and> (calls' = calls \<or> calls' = calls @ [security_id])
           \<and> get_security_info ws' security_id cache' calls' = (r, cache', calls')"
  proof (cases "cache_i security_id")
    case None
    then show ?thesis
      by (simp add: get_security_info_def Let_def hit_i
          split: fetch_result.splits option.splits prod.splits)
  next
    case (Some v)
    then have "cache_i(security_id \<mapsto> v) = cache_i"
      by (simp add: fun_upd_idem)
    with Some show ?thesis
      by (simp add: get_security_info_def)
  qed
  from n1 n2 i1 i2 show ?thesis
    by blast
qed

theorem resolver_cache_contract_witness:
  "get_security_name ex_ws ''sec-s-1'' [''sec-s-1'' \<mapsto> ''cached''] []
     = (''cached'', [''sec-s-1'' \<mapsto> ''cached''], [])
   \<and> get_security_name ex_ws ''sec-s-2'' Map.empty []
     = (''sec-s-2'', [''sec-s-2'' \<mapsto> ''sec-s-2''], [''sec-s-2''])
   \<and> get_security_name ex_ws ''sec-s-2'' [''sec-s-2'' \<mapsto> ''sec-s-2''] [''sec-s-2'']
     = (''sec-s-2'', [''sec-s-2'' \<mapsto> ''sec-s-2''], [''sec-s-2''])
   \<and> get_security_info ex_ws ''sec-s-1'' [''sec-s-1'' \<mapsto> (''X'', ''cached'')] []
     = ((''X'', ''cached''), [''sec-s-1'' \<mapsto> (''X'', ''cached'')], [])
   \<and> get_security_info ex_ws ''sec-s-2'' Map.empty []
     = ((''sec-s-2'', ''sec-s-2''), [''sec-s-2'' \<mapsto> (''sec-s-2'', ''sec-s-2'')], [''sec-s-2''])
   \<and> get_security_info ex_ws ''sec-s-2'' [''sec-s-2'' \<mapsto> (''sec-s-2'', ''sec-s-2'')]
         [''sec-s-2'']
     = ((''sec-s-2'', ''sec-s-2''), [''sec-s-2'' \<mapsto> (''sec-s-2'', ''sec-s-2'')], [''sec-s-2''])"
proof -
  have miss_n: "get_security_name ex_ws ''sec-s-2'' Map.empty []
     = (''sec-s-2'', [''sec-s-2'' \<mapsto> ''sec-s-2''], [''sec-s-2''])"
    by (simp add: get_security_name_def ex_ws_def)
  have miss_i: "get_security_info ex_ws ''sec-s-2'' Map.empty []
     = ((''sec-s-2'', ''sec-s-2''), [''sec-s-2'' \<mapsto> (''sec-s-2'', ''sec-s-2'')], [''sec-s-2''])"
    by (simp add: get_security_info_def ex_ws_def)
  from resolver_cache_contract
         [where cache_n = "[''sec-s-1'' \<mapsto> ''cached'']" and security_id = "''sec-s-1''"
            and v = "''cached''" and ws = ex_ws and calls = "[]"
            and cache_i = "[''sec-s-1'' \<mapsto> (''X'', ''cached'')]" and w = "(''X'', ''cached'')"]
       resolver_cache_contract
         [where cache_n = Map.empty and security_id = "''sec-s-2''" and ws = ex_ws
            and ws' = ex_ws and calls = "[]" and cache_i = Map.empty]
  show ?thesis
    by (simp add: miss_n miss_i)
qed

section \<open>Activities\<close>

text \<open>
  C7 as stated, that every stored amount is a non-negative magnitude, fails:
  \<^verbatim>\<open>_transform_activity\<close> stores \<^verbatim>\<open>float(activity.get("amount") or 0)\<close> as it is, so
  a raw amount of \<open>-255\<close> is stored as \<open>-255\<close> (here next to the sign \<open>+\<close>).
\<close>

theorem activity_amount_counterexample:
  "\<not> 0 \<le> amount (transform_activity ex_format_date ex_enhance_description ex_activity None)"
  by (simp add: transform_activity_def ex_activity_def amount_or_zero_def)

text \<open>
  C7, amended. The sign of an activity view is \<open>+\<close> exactly when the raw \<^verbatim>\<open>amountSign\<close>
  equals \<^verbatim>\<open>"positive"\<close> and \<open>-\<close> otherwise, whatever the amount is. The stored amount is
  the raw amount unchanged (\<open>0\<close> when it is absent), so it is non-negative exactly when
  the raw amount is.
\<close>

theorem activity_sign_and_amount:
  "(let v = transform_activity format_date enhance_description activity label
    in sign v = (if act_amountSign activity = Some ''positive'' then ''+'' else ''-'')
       \<and> sign (transform_activity format_date enhance_description
                  (activity\<lparr>act_amount := m\<rparr>) label) = sign v
       \<and> amount v = get_or (act_amount activity) 0
       \<and> (0 \<le> amount v) = (case act_amount activity of None \<Rightarrow> True | Some x \<Rightarrow> 0 \<le> x))"
  by (simp add: transform_activity_def amount_or_zero_def get_or_def Let_def
      split: option.splits)

theorem activity_sign_and_amount_witness:
  "sign (transform_activity ex_format_date ex_enhance_description ex_activity None) = ''+''
   \<and> sign (transform_activity ex_format_date ex_enhance_description
             (ex_activity\<lparr>act_amount := Some 255\<rparr>) None) = ''+''
   \<and> amount (transform_activity ex_format_date ex_enhance_description ex_activity None) = - 255"
proof -
  have s: "act_amountSign ex_activity = Some ''positive''"
    and a: "act_amount ex_activity = Some (- 255)"
    by (simp_all add: ex_activity_def)
  from activity_sign_and_amount
         [of ex_format_date ex_enhance_description ex_activity None "Some 255"]
  show ?thesis
    by (simp add: Let_def s a get_or_def)
qed
section \<open>Formatters\<close>

text \<open>
  C9. On the empty sequence every formatter method returns without error: the table
  formatter returns its "no data" sentence, the JSON formatter the serialisation of the
  empty array (also for positions, with or without totals), the CSV formatter the empty
  string.
\<close>

theorem formatters_on_empty:
  "TableFormatter_format_accounts rnd [] = ''No accounts found.''
   \<and> TableFormatter_format_activities [] = ''No activities found.''
   \<and> TableFormatter_format_positions ver rnd [] show_totals group_label = ''No positions found.''
   \<and> JsonFormatter_format_accounts dumps [] = dumps (JArray [])
   \<and> JsonFormatter_format_activities dumps [] = dumps (JArray [])
   \<and> JsonFormatter_format_positions dumps ver rnd [] show_totals group_label = dumps (JArray [])
   \<and> CsvFormatter_format_accounts writerow [] = []
   \<and> CsvFormatter_format_activities writerow [] = []
   \<and> CsvFormatter_format_positions writerow ver rnd [] show_totals group_label = []"
  by (simp add: TableFormatter_format_accounts_def TableFormatter_format_activities_def
      TableFormatter_format_positions_def JsonFormatter_format_accounts_def
      JsonFormatter_format_activities_def JsonFormatter_format_positions_def
      json_positions_value_def CsvFormatter_format_accounts_def
      CsvFormatter_format_activities_def CsvFormatter_format_positions_def)

text \<open>
  The currency of a positions totals row, in all three formats and in the grand total of
  the by-account report, is the currency of the first position.
\<close>

lemma table_positions_totals_currency:
  "\<exists>pre tv tb tp tpp.
     calculate_position_totals ver rnd (p # rest) = (tv, tb, tp, tpp)
     \<and> table_positions_lines ver rnd (p # rest) True group_label
         = pre @ [rule_line CHR ''='' 94,
                  format_totals_row tv tp tpp
                    (if truthy_str group_label then ''Account Total'' else ''Total'')
                    (PositionData.currency p),
                  rule_line CHR ''='' 94]"
proof -
  obtain tv tb tp tpp where t: "calculate_position_totals ver rnd (p # rest) = (tv, tb, tp, tpp)"
    by (cases "calculate_position_totals ver rnd (p # rest)")
  show ?thesis
  proof (cases "truthy_str group_label")
    case True
    with t show ?thesis
      by (simp add: table_positions_lines_def)
  next
    case False
    with t show ?thesis
      by (simp add: table_positions_lines_def)
  qed
qed

lemma csv_positions_totals_currency:
  "\<exists>pre c0 c1 c2 c3 c4 c6 c7 c8.
     csv_positions_rows ver rnd (p # rest) True group_label
       = pre @ [[c0, c1, c2, c3, c4, CText (PositionData.currency p), c6, c7, c8]]"
proof -
  obtain tv tb tp tpp where t: "calculate_position_totals ver rnd (p # rest) = (tv, tb, tp, tpp)"
    by (cases "calculate_position_totals ver rnd (p # rest)")
  then show ?thesis
    by (simp add: csv_positions_rows_def)
qed

lemma json_positions_totals_currency:
  "\<exists>fields extra.
     json_positions_value ver rnd (p # rest) True group_label
       = JObject ([(''positions'', JArray (map asdict_position (p # rest))),
                   (''totals'',
                      JObject (fields @ [(''currency'', JString (PositionData.currency p))]))]
                  @ extra)"
  by (simp add: json_positions_value_def Let_def)

text \<open>
  The total row of the accounts table ends in the literal \<^verbatim>\<open>CAD\<close>, whatever the
  currencies of the accounts are.
\<close>

lemma accounts_total_row_literal:
  "\<exists>pre total. table_accounts_lines rnd accounts
      = pre @ [rule_line CHR ''='' 80,
               ljust 61 ''Total'' @ '' '' @ format_f 15 True 2 total @ '' CAD'',
               rule_line CHR ''='' 80]"
proof -
  let ?head = "[nl @ rule_line CHR ''='' 80,
      ljust 40 ''Account'' @ '' '' @ ljust 20 ''Number'' @ '' '' @ rjust 18 ''Value'',
      rule_line CHR ''-'' 80]
     @ map (\<lambda>acc. ljust 40 (AccountData.description acc) @ '' ''
                   @ ljust 20 (AccountData.number acc) @ '' ''
                   @ format_f 15 True 2 (AccountData.value acc) @ '' ''
                   @ AccountData.currency acc) accounts"
  have "table_accounts_lines rnd accounts
      = ?head @ [rule_line CHR ''='' 80,
               ljust 61 ''Total'' @ '' ''
                 @ format_f 15 True 2 (plain_sum rnd (map AccountData.value accounts)) @ '' CAD'',
               rule_line CHR ''='' 80]"
    by (simp add: table_accounts_lines_def)
  then show ?thesis
    by blast
qed

text \<open>
  C6 at a single US-dollar account: the account row shows \<open>USD\<close>, the row of the total
  shows \<open>CAD\<close>, where the totals rows of the positions reports show the currency of
  the first item.
\<close>

theorem accounts_total_row_currency:
  "TableFormatter_format_accounts binary64 (get_accounts_data ex_usd_accounts False False False)
     = join_nl
         [nl @ rule_line CHR ''='' 80,
          ''Account                                  Number                            Value'',
          rule_line CHR ''-'' 80,
          ''US Cash                                  ACC-009                     1,000.00 USD'',
          rule_line CHR ''='' 80,
          ''Total                                                                1,000.00 CAD'',
          rule_line CHR ''='' 80]"
  by code_simp

lemma groups_of_stable_sort:
  fixes label :: "'a \<Rightarrow> string option"
  assumes "\<forall>x\<in>set xs. label x \<noteq> None"
  shows "groupby label (sort_key (\<lambda>x. get_or (label x) []) xs)
           = map (\<lambda>k. (Some k, filter (\<lambda>x. label x = Some k) xs))
               (sorted_list_of_set ((\<lambda>x. get_or (label x) []) ` set xs))"
proof -
  let ?f = "\<lambda>x. get_or (label x) []"
  have lab: "\<forall>x\<in>set xs. label x = Some (?f x)"
    using assms by (auto simp: get_or_def)
  have "groupby label (sort_key ?f xs)
          = map (\<lambda>v. (Some v, filter (\<lambda>x. ?f x = v) (sort_key ?f xs)))
              (sorted_list_of_set (?f ` set (sort_key ?f xs)))"
    by (rule groupby_sorted) (use lab in \<open>simp_all add: sorted_sort_key\<close>)
  also have "\<dots> = map (\<lambda>v. (Some v, filter (\<lambda>x. ?f x = v) xs))
                      (sorted_list_of_set (?f ` set xs))"
    by (simp add: sort_key_stable)
  also have "\<dots> = map (\<lambda>k. (Some k, filter (\<lambda>x. label x = Some k) xs))
                      (sorted_list_of_set (?f ` set xs))"
  proof (rule map_cong [OF refl])
    fix v
    have "filter (\<lambda>x. ?f x = v) xs = filter (\<lambda>x. label x = Some v) xs"
      by (rule filter_cong [OF refl]) (use lab in force)
    then show "(Some v, filter (\<lambda>x. ?f x = v) xs) = (Some v, filter (\<lambda>x. label x = Some v) xs)"
      by simp
  qed
  finally show ?thesis .
qed

section \<open>Grouping by account label\<close>

text \<open>
  C5 as stated, that the groups appear in the order in which their labels first appear,
  fails: in the by-account view of the example positions the first label is
  \<open>TFSA (ACC-001)\<close>, and the first group is that of \<open>My RRSP (ACC-002)\<close>.
\<close>

theorem grouping_order_counterexample:
  "map fst (position_groups ex_views)
     \<noteq> map fst (stable_partition PositionData.account_label ex_views)"
  by code_simp

text \<open>
  C5, amended. The groups of a by-account report are the runs of equal label of the
  sequence sorted stably by label (a missing label sorts as the empty string). When every
  item has a label, as in a multi-account report, the groups appear in ascending order of
  label, one group per label, and each group holds all items with that label in their
  original order. This holds for positions and for activities.
\<close>

theorem groups_sorted_by_label:
  "concat (map snd (position_groups ps))
     = sort_key (\<lambda>p. get_or (PositionData.account_label p) []) ps
   \<and> ((\<forall>p\<in>set ps. PositionData.account_label p \<noteq> None) \<longrightarrow>
        position_groups ps
          = map (\<lambda>k. (Some k, filter (\<lambda>p. PositionData.account_label p = Some k) ps))
              (sorted_list_of_set ((\<lambda>p. get_or (PositionData.account_label p) []) ` set ps)))
   \<and> concat (map snd (activity_groups acts))
       = sort_key (\<lambda>a. get_or (ActivityData.account_label a) []) acts
   \<and> ((\<forall>a\<in>set acts. ActivityData.account_label a \<noteq> None) \<longrightarrow>
        activity_groups acts
          = map (\<lambda>k. (Some k, filter (\<lambda>a. ActivityData.account_label a = Some k) acts))
              (sorted_list_of_set ((\<lambda>a. get_or (ActivityData.account_label a) []) ` set acts)))"
  unfolding position_groups_def activity_groups_def
  using groups_of_stable_sort [of ps PositionData.account_label]
    groups_of_stable_sort [of acts ActivityData.account_label]
  by (simp add: concat_groupby)

theorem groups_sorted_by_label_witness:
  "map fst (position_groups ex_views) = [Some ''My RRSP (ACC-002)'', Some ''TFSA (ACC-001)'']
   \<and> map (map symbol \<circ> snd) (position_groups ex_views)
       = [[''sec-s-2'', ''N/A'', ''VFV''], [''VFV'', ''sec-s-2'']]
   \<and> map symbol ex_views = [''VFV'', ''sec-s-2'', ''sec-s-2'', ''N/A'', ''VFV'']
   \<and> map fst (activity_groups ex_activity_views)
       = [Some ''My RRSP (ACC-002)'', Some ''TFSA (ACC-001)'']"
proof -
  have labels: "map PositionData.account_label ex_views
      = [Some ''TFSA (ACC-001)'', Some ''TFSA (ACC-001)'', Some ''My RRSP (ACC-002)'',
         Some ''My RRSP (ACC-002)'', Some ''My RRSP (ACC-002)'']"
    and symbols: "map symbol ex_views = [''VFV'', ''sec-s-2'', ''sec-s-2'', ''N/A'', ''VFV'']"
    and alabels: "map ActivityData.account_label ex_activity_views
      = [Some ''TFSA (ACC-001)'', Some ''My RRSP (ACC-002)'']"
    by code_simp+
  have all_p: "\<forall>p\<in>set ex_views. PositionData.account_label p \<noteq> None"
    and all_a: "\<forall>a\<in>set ex_activity_views. ActivityData.account_label a \<noteq> None"
    by code_simp+
  have keys_p: "sorted_list_of_set ((\<lambda>p. get_or (PositionData.account_label p) []) ` set ex_views)
      = [''My RRSP (ACC-002)'', ''TFSA (ACC-001)'']"
    and keys_a: "sorted_list_of_set
         ((\<lambda>a. get_or (ActivityData.account_label a) []) ` set ex_activity_views)
      = [''My RRSP (ACC-002)'', ''TFSA (ACC-001)'']"
    by code_simp+
  have sel: "map symbol (filter (\<lambda>p. PositionData.account_label p = Some ''My RRSP (ACC-002)'')
                          ex_views) = [''sec-s-2'', ''N/A'', ''VFV'']"
    "map symbol (filter (\<lambda>p. PositionData.account_label p = Some ''TFSA (ACC-001)'')
                          ex_views) = [''VFV'', ''sec-s-2'']"
    by code_simp+
  from groups_sorted_by_label [of ex_views ex_activity_views] all_p all_a
  show ?thesis
    by (simp add: keys_p keys_a sel symbols)
qed

section \<open>Grand total and subtotals\<close>

lemma sum_list_mset_cong:
  fixes f :: "'a \<Rightarrow> rat"
  assumes "mset xs = mset ys"
  shows "sum_list (map f xs) = sum_list (map f ys)"
proof -
  have "sum_list (map f xs) = sum_mset (image_mset f (mset xs))"
    by (simp add: sum_mset_sum_list [symmetric])
  also have "\<dots> = sum_mset (image_mset f (mset ys))"
    by (simp add: assms)
  also have "\<dots> = sum_list (map f ys)"
    by (simp add: sum_mset_sum_list [symmetric])
  finally show ?thesis .
qed

lemma sum_list_groups:
  fixes f :: "'a \<Rightarrow> rat"
  shows "sum_list (map (\<lambda>g. sum_list (map f g)) gs) = sum_list (map f (concat gs))"
  by (induction gs) simp_all

lemma exact_totals:
  "calculate_position_totals ver (\<lambda>x. x) ps
     = (sum_list (map market_value ps), sum_list (map book_value ps),
        sum_list (map market_value ps) - sum_list (map book_value ps),
        zero_guarded_pct (\<lambda>x. x)
          (sum_list (map market_value ps) - sum_list (map book_value ps))
          (sum_list (map book_value ps)))"
  "assets_calculate_position_totals ver (\<lambda>x. x) ps
     = (sum_list (map market_value ps),
        sum_list (map market_value ps) - sum_list (map book_value ps),
        zero_guarded_pct (\<lambda>x. x)
          (sum_list (map market_value ps) - sum_list (map book_value ps))
          (sum_list (map book_value ps)))"
  by (simp_all add: calculate_position_totals_def assets_calculate_position_totals_def
      py_sum_exact zero_guarded_pct_def Let_def)

lemma exact_partition_totals:
  assumes "mset (concat gs) = mset pd"
  shows "fst (assets_calculate_position_totals ver (\<lambda>x. x) pd)
           = sum_list (map (\<lambda>g. fst (calculate_position_totals ver (\<lambda>x. x) g)) gs)"
    and "fst (snd (assets_calculate_position_totals ver (\<lambda>x. x) pd))
           = sum_list (map (\<lambda>g. fst (snd (snd (calculate_position_totals ver (\<lambda>x. x) g)))) gs)"
proof -
  have mv: "sum_list (map market_value pd) = sum_list (map market_value (concat gs))"
    and bv: "sum_list (map book_value pd) = sum_list (map book_value (concat gs))"
    using assms by (auto intro: sum_list_mset_cong)
  show "fst (assets_calculate_position_totals ver (\<lambda>x. x) pd)
           = sum_list (map (\<lambda>g. fst (calculate_position_totals ver (\<lambda>x. x) g)) gs)"
    by (simp add: exact_totals mv sum_list_groups)
  have "sum_list (map (\<lambda>g. fst (snd (snd (calculate_position_totals ver (\<lambda>x. x) g)))) gs)
          = sum_list (map (\<lambda>g. sum_list (map market_value g)) gs)
            - sum_list (map (\<lambda>g. sum_list (map book_value g)) gs)"
    by (simp add: exact_totals sum_list_subtractf)
  then show "fst (snd (assets_calculate_position_totals ver (\<lambda>x. x) pd))
           = sum_list (map (\<lambda>g. fst (snd (snd (calculate_position_totals ver (\<lambda>x. x) g)))) gs)"
    by (simp add: exact_totals mv bv sum_list_groups)
qed

lemma mset_position_groups: "mset (concat (map snd (position_groups pd))) = mset pd"
  by (simp add: position_groups_def concat_groupby)

lemma cent_grand_total_plain:
  "assets_calculate_position_totals Plain_sum binary64 ex_cent_views
     = (3963167672086037 / 36028797018963968, 3963167672086037 / 36028797018963968, 0)"
  by code_simp

lemma cent_grand_total_compensated:
  "assets_calculate_position_totals Compensated_sum binary64 ex_cent_views
     = (3963167672086037 / 36028797018963968, 3963167672086037 / 36028797018963968, 0)"
  by code_simp

lemma cent_subtotals_plain:
  "group_subtotals Plain_sum binary64 ex_cent_views
     = [(5764607523034235 / 72057594037927936, 0, 5764607523034235 / 72057594037927936, 0),
        (1080863910568919 / 36028797018963968, 0, 1080863910568919 / 36028797018963968, 0)]"
  by code_simp

lemma cent_subtotals_compensated:
  "group_subtotals Compensated_sum binary64 ex_cent_views
     = [(5764607523034235 / 72057594037927936, 0, 5764607523034235 / 72057594037927936, 0),
        (1080863910568919 / 36028797018963968, 0, 1080863910568919 / 36028797018963968, 0)]"
  by code_simp

lemma cent_sum_of_subtotals_plain:
  "py_sum Plain_sum binary64
     [5764607523034235 / 72057594037927936, 1080863910568919 / 36028797018963968]
     = 7926335344172073 / 72057594037927936"
  by code_simp

lemma cent_sum_of_subtotals_compensated:
  "py_sum Compensated_sum binary64
     [5764607523034235 / 72057594037927936, 1080863910568919 / 36028797018963968]
     = 7926335344172073 / 72057594037927936"
  by code_simp

text \<open>
  C2 as stated, that the grand total is numerically identical to the sum of the
  subtotals, fails in the double arithmetic of the program, under either variant of
  \<^verbatim>\<open>sum\<close>. For positions worth 0.01 and 0.02 in one account and 0.01 and 0.07 in another,
  the grand total is \<^verbatim>\<open>sum([0.01, 0.02, 0.01, 0.07]) = 0.11000000000000001\<close>, the subtotals
  are \<^verbatim>\<open>0.08\<close> and \<^verbatim>\<open>0.03\<close>, and their sum is \<^verbatim>\<open>0.11\<close>; the exact sum of the two
  subtotals differs from the grand total as well. The same holds for the profit and loss.
\<close>

theorem grand_total_counterexample:
  "fst (assets_calculate_position_totals Plain_sum binary64 ex_cent_views)
     \<noteq> sum_of_subtotal_values Plain_sum binary64 ex_cent_views
   \<and> fst (assets_calculate_position_totals Compensated_sum binary64 ex_cent_views)
     \<noteq> sum_of_subtotal_values Compensated_sum binary64 ex_cent_views
   \<and> fst (assets_calculate_position_totals Plain_sum binary64 ex_cent_views)
     \<noteq> sum_list (map fst (group_subtotals Plain_sum binary64 ex_cent_views))
   \<and> fst (assets_calculate_position_totals Compensated_sum binary64 ex_cent_views)
     \<noteq> sum_list (map fst (group_subtotals Compensated_sum binary64 ex_cent_views))
   \<and> fst (snd (assets_calculate_position_totals Plain_sum binary64 ex_cent_views))
     \<noteq> sum_of_subtotal_pnls Plain_sum binary64 ex_cent_views
   \<and> fst (snd (assets_calculate_position_totals Compensated_sum binary64 ex_cent_views))
     \<noteq> sum_of_subtotal_pnls Compensated_sum binary64 ex_cent_views"
  unfolding sum_of_subtotal_values_def sum_of_subtotal_pnls_def
    cent_grand_total_plain cent_grand_total_compensated
    cent_subtotals_plain cent_subtotals_compensated
  by (simp add: cent_sum_of_subtotals_plain cent_sum_of_subtotals_compensated)

text \<open>
  C2, amended. The grand total of the by-account report is recomputed from the full
  ungrouped sequence. When the sums are exact (no rounding), its market value and its
  profit and loss equal the sums of the subtotals of the groups of the report, and of any
  other division of the sequence into groups.
\<close>

theorem grand_total_exact:
  "fst (assets_calculate_position_totals ver (\<lambda>x. x) pd) = sum_of_subtotal_values ver (\<lambda>x. x) pd
   \<and> fst (snd (assets_calculate_position_totals ver (\<lambda>x. x) pd)) = sum_of_subtotal_pnls ver (\<lambda>x. x) pd
   \<and> (mset (concat gs) = mset pd \<longrightarrow>
        fst (assets_calculate_position_totals ver (\<lambda>x. x) pd)
          = sum_list (map (\<lambda>g. fst (calculate_position_totals ver (\<lambda>x. x) g)) gs)
        \<and> fst (snd (assets_calculate_position_totals ver (\<lambda>x. x) pd))
          = sum_list (map (\<lambda>g. fst (snd (snd (calculate_position_totals ver (\<lambda>x. x) g)))) gs))"
proof -
  have v: "sum_of_subtotal_values ver (\<lambda>x. x) pd
      = sum_list (map (\<lambda>g. fst (calculate_position_totals ver (\<lambda>x. x) g))
                      (map snd (position_groups pd)))"
    by (simp add: sum_of_subtotal_values_def group_subtotals_def py_sum_exact comp_def
        case_prod_unfold)
  have p: "sum_of_subtotal_pnls ver (\<lambda>x. x) pd
      = sum_list (map (\<lambda>g. fst (snd (snd (calculate_position_totals ver (\<lambda>x. x) g))))
                      (map snd (position_groups pd)))"
    by (simp add: sum_of_subtotal_pnls_def group_subtotals_def py_sum_exact comp_def
        case_prod_unfold)
  show ?thesis
    using exact_partition_totals
            [where gs = "map snd (position_groups pd)" and pd = pd and ver = ver,
             OF mset_position_groups]
      exact_partition_totals [where gs = gs and pd = pd and ver = ver]
    by (simp add: v p)
qed

theorem grand_total_exact_witness:
  "fst (assets_calculate_position_totals Compensated_sum (\<lambda>x. x) ex_views) = 10635
   \<and> sum_of_subtotal_values Compensated_sum (\<lambda>x. x) ex_views = 10635
   \<and> fst (snd (assets_calculate_position_totals Compensated_sum (\<lambda>x. x) ex_views)) = 225
   \<and> sum_of_subtotal_pnls Compensated_sum (\<lambda>x. x) ex_views = 225
   \<and> sum_list (map (\<lambda>g. fst (calculate_position_totals Compensated_sum (\<lambda>x. x) g))
                  [take 1 ex_views, drop 1 ex_views]) = 10635"
proof -
  have t: "assets_calculate_position_totals Compensated_sum (\<lambda>x. x) ex_views = (10635, 225, 750 / 347)"
    by code_simp
  have m: "mset (concat [take 1 ex_views, drop 1 ex_views]) = mset ex_views"
    by simp
  from grand_total_exact [where ver = Compensated_sum and pd = ex_views
                             and gs = "[take 1 ex_views, drop 1 ex_views]"] m
  show ?thesis
    by (simp add: t)
qed

section \<open>Positions by account\<close>






















end
